theory Spec2Isabelle
  imports Complex_Main
begin

section \<open>Python values, errors and the object store\<close>

text \<open>
  The tree model of \<^verbatim>\<open>interfaceModel.py\<close> navigates a graph of mutable domain objects
  that point at each other (a slider knows its group, the group lists its sliders).
  The graph is embedded as an explicit store: a reference is a natural number, Python's
  \<^verbatim>\<open>None\<close> is \<open>None :: ref option\<close>, and the store maps each reference to the object
  living there. Object identity (the default \<^verbatim>\<open>==\<close> of Python objects, used by
  \<^verbatim>\<open>list.index\<close> and \<^verbatim>\<open>in\<close>) is equality of references.
\<close>

type_synonym ref = nat

datatype pyerr =
    IndexError
  | ValueError
  | AttributeError
  | TypeError
  | KeyError
  | ReError string
  | NotModelled
  | Raised nat

datatype pyval = VNone | VBool bool | VInt int | VFloat real | VStr string

text \<open>Python's \<^verbatim>\<open>==\<close> on plain values: numbers compare across bool, int and float.\<close>

fun py_num :: "pyval \<Rightarrow> real option" where
  "py_num (VBool b) = Some (if b then 1 else 0)"
| "py_num (VInt i) = Some (real_of_int i)"
| "py_num (VFloat r) = Some r"
| "py_num _ = None"

definition py_eq :: "pyval \<Rightarrow> pyval \<Rightarrow> bool" where
  "py_eq a b = (case (py_num a, py_num b) of
      (Some x, Some y) \<Rightarrow> x = y
    | (None, None) \<Rightarrow> a = b
    | _ \<Rightarrow> False)"

datatype cls =
    CSimplex | CGroup | CSlider | CCombo | CTraversal | CComboPair | CTravPair
  | CProgression | CProgPair | CShape | CFalloff | COther

text \<open>
  Modelled from the spec: the item classes (\<^verbatim>\<open>Simplex\<close>, \<^verbatim>\<open>Group\<close>, \<^verbatim>\<open>Slider\<close>, \<^verbatim>\<open>Combo\<close>,
  \<^verbatim>\<open>Traversal\<close>, \<^verbatim>\<open>ComboPair\<close>, \<^verbatim>\<open>TravPair\<close>, \<^verbatim>\<open>Progression\<close>, \<^verbatim>\<open>ProgPair\<close>, \<^verbatim>\<open>Shape\<close>,
  \<^verbatim>\<open>Falloff\<close>) are imported from \<^verbatim>\<open>interfaceItems\<close> and declared outside this file. Following
  the data model of the spec, each class is a constructor that carries the attributes
  \<^verbatim>\<open>interfaceModel.py\<close> reads or writes on its instances, and assigning to an attribute
  replaces the field. \<open>usageIndex\<close> stands for the result of the method
  \<^verbatim>\<open>TravPair.usageIndex()\<close>. \<open>Other\<close> is any object of an unrelated class. The classes are
  taken to be unrelated by inheritance, so that an object is an instance of exactly one
  of them, and to compare by identity.
\<close>

datatype obj =
    Simplex (name: pyval) (sliderGroups: "ref list") (comboGroups: "ref list")
      (traversalGroups: "ref list") (falloffs: "ref list")
  | Group (name: pyval) (simplex: "ref option") (items: "ref list") (groupType: cls)
  | Slider (name: pyval) (group: "ref option") (prog: "ref option") (enabled: bool)
      (val: pyval)
  | Combo (name: pyval) (group: "ref option") (pairs: "ref list") (prog: "ref option")
      (enabled: bool)
  | Traversal (name: pyval) (group: "ref option") (progressCtrl: "ref option")
      (multiplierCtrl: "ref option") (prog: "ref option") (enabled: bool)
  | ComboPair (name: pyval) (slider: "ref option") (combo: "ref option") (val: pyval)
  | TravPair (name: pyval) (traversal: "ref option") (usage: pyval) (val: pyval)
      (usageIndex: int)
  | Progression (name: pyval) (controller: "ref option") (pairs: "ref list")
      (falloffs: "ref list")
  | ProgPair (name: pyval) (prog: "ref option") (shape: "ref option") (val: pyval)
  | Shape (name: pyval) (isRest: bool)
  | Falloff (name: pyval)
  | Other

type_synonym heap = "ref \<Rightarrow> obj"

fun classOf :: "obj \<Rightarrow> cls" where
  "classOf (Simplex _ _ _ _ _) = CSimplex"
| "classOf (Group _ _ _ _) = CGroup"
| "classOf (Slider _ _ _ _ _) = CSlider"
| "classOf (Combo _ _ _ _ _) = CCombo"
| "classOf (Traversal _ _ _ _ _ _) = CTraversal"
| "classOf (ComboPair _ _ _ _) = CComboPair"
| "classOf (TravPair _ _ _ _ _) = CTravPair"
| "classOf (Progression _ _ _ _) = CProgression"
| "classOf (ProgPair _ _ _ _) = CProgPair"
| "classOf (Shape _ _) = CShape"
| "classOf (Falloff _) = CFalloff"
| "classOf Other = COther"

text \<open>\<^verbatim>\<open>isinstance(item, C)\<close>; \<^verbatim>\<open>None\<close> is an instance of none of the classes.\<close>

definition isinstance :: "heap \<Rightarrow> ref option \<Rightarrow> cls \<Rightarrow> bool" where
  "isinstance h item c = (case item of None \<Rightarrow> False | Some r \<Rightarrow> classOf (h r) = c)"

subsection \<open>Results that may raise\<close>

definition ebind :: "pyerr + 'a \<Rightarrow> ('a \<Rightarrow> pyerr + 'b) \<Rightarrow> pyerr + 'b" where
  "ebind x f = (case x of Inl e \<Rightarrow> Inl e | Inr v \<Rightarrow> f v)"

text \<open>
  Attribute access. Reading an attribute of \<^verbatim>\<open>None\<close>, or one the object's class does
  not have, raises \<^verbatim>\<open>AttributeError\<close>.
\<close>

definition getattr :: "(obj \<Rightarrow> bool) \<Rightarrow> (obj \<Rightarrow> 'a) \<Rightarrow> heap \<Rightarrow> ref option \<Rightarrow> pyerr + 'a" where
  "getattr has sel h item =
     (case item of
        None \<Rightarrow> Inl AttributeError
      | Some r \<Rightarrow> if has (h r) then Inr (sel (h r)) else Inl AttributeError)"

definition get_sliderGroups :: "heap \<Rightarrow> ref option \<Rightarrow> pyerr + ref list" where
  "get_sliderGroups = getattr is_Simplex sliderGroups"

definition get_comboGroups :: "heap \<Rightarrow> ref option \<Rightarrow> pyerr + ref list" where
  "get_comboGroups = getattr is_Simplex comboGroups"

definition get_traversalGroups :: "heap \<Rightarrow> ref option \<Rightarrow> pyerr + ref list" where
  "get_traversalGroups = getattr is_Simplex traversalGroups"

definition get_simplex :: "heap \<Rightarrow> ref option \<Rightarrow> pyerr + ref option" where
  "get_simplex = getattr is_Group simplex"

definition get_items :: "heap \<Rightarrow> ref option \<Rightarrow> pyerr + ref list" where
  "get_items = getattr is_Group items"

definition get_group :: "heap \<Rightarrow> ref option \<Rightarrow> pyerr + ref option" where
  "get_group = getattr (\<lambda>x. is_Slider x \<or> is_Combo x \<or> is_Traversal x) group"

definition get_prog :: "heap \<Rightarrow> ref option \<Rightarrow> pyerr + ref option" where
  "get_prog = getattr (\<lambda>x. is_Slider x \<or> is_Combo x \<or> is_Traversal x \<or> is_ProgPair x) prog"

definition get_pairs :: "heap \<Rightarrow> ref option \<Rightarrow> pyerr + ref list" where
  "get_pairs = getattr (\<lambda>x. is_Combo x \<or> is_Progression x) pairs"

definition get_progressCtrl :: "heap \<Rightarrow> ref option \<Rightarrow> pyerr + ref option" where
  "get_progressCtrl = getattr is_Traversal progressCtrl"

definition get_multiplierCtrl :: "heap \<Rightarrow> ref option \<Rightarrow> pyerr + ref option" where
  "get_multiplierCtrl = getattr is_Traversal multiplierCtrl"

definition get_combo :: "heap \<Rightarrow> ref option \<Rightarrow> pyerr + ref option" where
  "get_combo = getattr is_ComboPair combo"

definition get_slider :: "heap \<Rightarrow> ref option \<Rightarrow> pyerr + ref option" where
  "get_slider = getattr is_ComboPair slider"

definition get_traversal :: "heap \<Rightarrow> ref option \<Rightarrow> pyerr + ref option" where
  "get_traversal = getattr is_TravPair traversal"

definition get_usageIndex :: "heap \<Rightarrow> ref option \<Rightarrow> pyerr + int" where
  "get_usageIndex = getattr is_TravPair usageIndex"

definition get_controller :: "heap \<Rightarrow> ref option \<Rightarrow> pyerr + ref option" where
  "get_controller = getattr is_Progression controller"

definition get_falloffs :: "heap \<Rightarrow> ref option \<Rightarrow> pyerr + ref list" where
  "get_falloffs = getattr (\<lambda>x. is_Simplex x \<or> is_Progression x) falloffs"

definition get_shape :: "heap \<Rightarrow> ref option \<Rightarrow> pyerr + ref option" where
  "get_shape = getattr is_ProgPair shape"

definition get_isRest :: "heap \<Rightarrow> ref option \<Rightarrow> pyerr + bool" where
  "get_isRest = getattr is_Shape isRest"

definition get_name :: "heap \<Rightarrow> ref option \<Rightarrow> pyerr + pyval" where
  "get_name = getattr (\<lambda>x. x \<noteq> Other) name"

subsection \<open>Python lists\<close>

definition py_len :: "'a list \<Rightarrow> int" where
  "py_len xs = int (length xs)"

text \<open>
  \<^verbatim>\<open>xs[i]\<close>. Python accepts \<open>-len(xs) \<le> i < len(xs)\<close> and reads from the end for a
  negative \<open>i\<close>; any other index raises \<^verbatim>\<open>IndexError\<close>.
\<close>

definition py_getitem :: "'a list \<Rightarrow> int \<Rightarrow> pyerr + 'a" where
  "py_getitem xs i =
     (if 0 \<le> i \<and> i < py_len xs then Inr (xs ! nat i)
      else if i < 0 \<and> - py_len xs \<le> i then Inr (xs ! nat (py_len xs + i))
      else Inl IndexError)"

text \<open>\<^verbatim>\<open>xs.index(x)\<close>: the first position holding \<open>x\<close>, or \<^verbatim>\<open>ValueError\<close>.\<close>

fun py_index :: "'a list \<Rightarrow> 'a \<Rightarrow> pyerr + int" where
  "py_index [] x = Inl ValueError"
| "py_index (y # ys) x = (if y = x then Inr 0 else ebind (py_index ys x) (\<lambda>i. Inr (i + 1)))"

section \<open>The hierarchy navigator of \<^verbatim>\<open>SimplexModel\<close>\<close>

record SimplexModel =
  model_simplex :: "ref option"

text \<open>
  \<^verbatim>\<open>getChildItem\<close> starts from \<^verbatim>\<open>child = None\<close> and swallows \<^verbatim>\<open>IndexError\<close> only; any
  other exception leaves the method.
\<close>

definition catch_IndexError :: "pyerr + ref option \<Rightarrow> pyerr + ref option" where
  "catch_IndexError x = (case x of Inl IndexError \<Rightarrow> Inr None | _ \<Rightarrow> x)"

definition getChildItem :: "SimplexModel \<Rightarrow> heap \<Rightarrow> ref option \<Rightarrow> int \<Rightarrow> pyerr + ref option" where
  "getChildItem self h parent row = catch_IndexError
     (if isinstance h parent CSimplex then
        ebind (get_sliderGroups h parent) (\<lambda>sg.
        ebind (get_comboGroups h parent) (\<lambda>cg.
        ebind (get_traversalGroups h parent) (\<lambda>tg.
        ebind (py_getitem (sg @ cg @ tg) row) (\<lambda>c. Inr (Some c)))))
      else if isinstance h parent CGroup then
        ebind (get_items h parent) (\<lambda>xs.
        ebind (py_getitem xs row) (\<lambda>c. Inr (Some c)))
      else if isinstance h parent CSlider then
        ebind (get_prog h parent) (\<lambda>p.
        ebind (get_pairs h p) (\<lambda>ps.
        ebind (py_getitem ps row) (\<lambda>c. Inr (Some c))))
      else if isinstance h parent CCombo then
        ebind (get_pairs h parent) (\<lambda>ps.
          if row = py_len ps then get_prog h parent
          else ebind (py_getitem ps row) (\<lambda>c. Inr (Some c)))
      else if isinstance h parent CTraversal then
        (if row = 0 then get_progressCtrl h parent
         else if row = 1 then get_multiplierCtrl h parent
         else if row = 2 then get_prog h parent
         else Inr None)
      else if isinstance h parent CProgression then
        ebind (get_pairs h parent) (\<lambda>ps.
        ebind (py_getitem ps row) (\<lambda>c. Inr (Some c)))
      else if parent = None then
        (if row = 0 then Inr (model_simplex self) else Inr None)
      else Inr None)"

text \<open>
  \<^verbatim>\<open>getItemRow\<close> starts from \<^verbatim>\<open>row = None\<close> and swallows \<^verbatim>\<open>ValueError\<close> and
  \<^verbatim>\<open>AttributeError\<close> (it prints them; the printing is not modelled).
\<close>

definition catch_Value_Attribute :: "pyerr + int option \<Rightarrow> pyerr + int option" where
  "catch_Value_Attribute x =
     (case x of Inl ValueError \<Rightarrow> Inr None | Inl AttributeError \<Rightarrow> Inr None | _ \<Rightarrow> x)"

definition row_in_group :: "heap \<Rightarrow> ref \<Rightarrow> pyerr + int option" where
  "row_in_group h r =
     ebind (get_group h (Some r)) (\<lambda>g.
     ebind (get_items h g) (\<lambda>xs.
     ebind (py_index xs r) (\<lambda>i. Inr (Some i))))"

definition getItemRow :: "heap \<Rightarrow> ref option \<Rightarrow> pyerr + int option" where
  "getItemRow h item = catch_Value_Attribute
     (case item of
        None \<Rightarrow> Inr None
      | Some r \<Rightarrow>
         (if isinstance h item CGroup then
            ebind (get_simplex h item) (\<lambda>s.
            ebind (get_sliderGroups h s) (\<lambda>sg.
            ebind (get_comboGroups h s) (\<lambda>cg.
            ebind (get_traversalGroups h s) (\<lambda>tg.
            ebind (py_index (sg @ cg @ tg) r) (\<lambda>i. Inr (Some i))))))
          else if isinstance h item CSlider then row_in_group h r
          else if isinstance h item CProgPair then
            ebind (get_prog h item) (\<lambda>p.
            ebind (get_pairs h p) (\<lambda>ps.
            ebind (py_index ps r) (\<lambda>i. Inr (Some i))))
          else if isinstance h item CCombo then row_in_group h r
          else if isinstance h item CComboPair then
            ebind (get_combo h item) (\<lambda>c.
            ebind (get_pairs h c) (\<lambda>ps.
            ebind (py_index ps r) (\<lambda>i. Inr (Some i))))
          else if isinstance h item CTraversal then row_in_group h r
          else if isinstance h item CTravPair then
            ebind (get_usageIndex h item) (\<lambda>i. Inr (Some i))
          else if isinstance h item CProgression then
            ebind (get_controller h item) (\<lambda>c.
              if isinstance h c CSlider then
                ebind (get_pairs h item) (\<lambda>ps. Inr (Some (py_len ps)))
              else if isinstance h c CCombo then
                ebind (get_pairs h item) (\<lambda>ps. Inr (Some (py_len ps)))
              else if isinstance h c CTraversal then Inr (Some 2)
              else Inr None)
          else if isinstance h item CSimplex then Inr (Some 0)
          else Inr None))"

definition getParentItem :: "heap \<Rightarrow> ref option \<Rightarrow> pyerr + ref option" where
  "getParentItem h item =
     (if isinstance h item CGroup then get_simplex h item
      else if isinstance h item CSlider then get_group h item
      else if isinstance h item CProgression then get_controller h item
      else if isinstance h item CCombo then get_group h item
      else if isinstance h item CComboPair then get_combo h item
      else if isinstance h item CTravPair then get_traversal h item
      else if isinstance h item CTraversal then get_group h item
      else if isinstance h item CProgPair then
        ebind (get_prog h item) (\<lambda>par.
        ebind (get_controller h par) (\<lambda>c.
          if isinstance h c CSlider then Inr c else Inr par))
      else Inr None)"

definition getItemRowCount :: "heap \<Rightarrow> ref option \<Rightarrow> pyerr + int" where
  "getItemRowCount h item =
     (if isinstance h item CSimplex then
        ebind (get_sliderGroups h item) (\<lambda>sg.
        ebind (get_comboGroups h item) (\<lambda>cg.
        ebind (get_traversalGroups h item) (\<lambda>tg.
        Inr (py_len sg + py_len cg + py_len tg))))
      else if isinstance h item CGroup then
        ebind (get_items h item) (\<lambda>xs. Inr (py_len xs))
      else if isinstance h item CSlider then
        ebind (get_prog h item) (\<lambda>p.
        ebind (get_pairs h p) (\<lambda>ps. Inr (py_len ps)))
      else if isinstance h item CCombo then
        ebind (get_pairs h item) (\<lambda>ps. Inr (py_len ps + 1))
      else if isinstance h item CTraversal then Inr 3
      else if isinstance h item CTravPair then Inr 0
      else if isinstance h item CProgression then
        ebind (get_pairs h item) (\<lambda>ps. Inr (py_len ps))
      else if item = None then Inr 1
      else Inr 0)"

definition getItemAppendRow :: "heap \<Rightarrow> ref option \<Rightarrow> pyerr + int" where
  "getItemAppendRow h item =
     (if isinstance h item CCombo then
        ebind (get_pairs h item) (\<lambda>ps. Inr (py_len ps))
      else getItemRowCount h item)"

section \<open>Model indices and the tree model\<close>

text \<open>
  A \<^verbatim>\<open>QModelIndex\<close> carries a row, a column, the internal pointer (the item) and the
  model that made it. The default-constructed index has row and column \<open>-1\<close>, no
  pointer and no model; an index is valid when row and column are not negative and it
  has a model.
\<close>

record qidx =
  idx_row :: int
  idx_column :: int
  idx_ptr :: "ref option"
  idx_model :: bool

definition QModelIndex :: qidx where
  "QModelIndex = \<lparr>idx_row = -1, idx_column = -1, idx_ptr = None, idx_model = False\<rparr>"

definition createIndex :: "int \<Rightarrow> int \<Rightarrow> ref option \<Rightarrow> qidx" where
  "createIndex r c p = \<lparr>idx_row = r, idx_column = c, idx_ptr = p, idx_model = True\<rparr>"

definition isValid :: "qidx \<Rightarrow> bool" where
  "isValid i \<longleftrightarrow> 0 \<le> idx_row i \<and> 0 \<le> idx_column i \<and> idx_model i"

definition internalPointer :: "qidx \<Rightarrow> ref option" where
  "internalPointer i = idx_ptr i"

text \<open>
  The calls a model makes into the view framework are recorded in order: the begin and
  end notifications of the four structural brackets, and \<^verbatim>\<open>dataChanged.emit\<close>.
\<close>

datatype event =
    BeginInsertRows qidx int int
  | EndInsertRows
  | BeginRemoveRows qidx int int
  | EndRemoveRows
  | BeginMoveRows qidx int int qidx int
  | EndMoveRows
  | BeginResetModel
  | EndResetModel
  | DataChanged qidx qidx

record world =
  store :: heap
  emitted :: "event list"

definition emit :: "event \<Rightarrow> world \<Rightarrow> world" where
  "emit e w = w\<lparr>emitted := emitted w @ [e]\<rparr>"

text \<open>\<^verbatim>\<open>ContextModel.indexFromItem\<close> and \<^verbatim>\<open>itemFromIndex\<close>, over the model's own
  \<^verbatim>\<open>getItemRow\<close>.\<close>

definition indexFromItem ::
  "(heap \<Rightarrow> ref option \<Rightarrow> pyerr + int option) \<Rightarrow> heap \<Rightarrow> ref option \<Rightarrow> int \<Rightarrow> pyerr + qidx" where
  "indexFromItem getRow h item col =
     ebind (getRow h item) (\<lambda>r.
       case r of None \<Rightarrow> Inr QModelIndex | Some i \<Rightarrow> Inr (createIndex i col item))"

definition itemFromIndex :: "qidx \<Rightarrow> ref option" where
  "itemFromIndex i = internalPointer i"

text \<open>\<^verbatim>\<open>SimplexModel.index\<close>, \<^verbatim>\<open>parent\<close> and \<^verbatim>\<open>rowCount\<close>.\<close>

definition index :: "SimplexModel \<Rightarrow> heap \<Rightarrow> int \<Rightarrow> int \<Rightarrow> qidx \<Rightarrow> pyerr + qidx" where
  "index self h r c parIndex =
     ebind (getChildItem self h (internalPointer parIndex) r) (\<lambda>child.
       if child = None then Inr QModelIndex else Inr (createIndex r c child))"

definition parent :: "heap \<Rightarrow> qidx \<Rightarrow> pyerr + qidx" where
  "parent h i =
     (if \<not> isValid i then Inr QModelIndex
      else if internalPointer i = None then Inr QModelIndex
      else
        ebind (getParentItem h (internalPointer i)) (\<lambda>par.
        ebind (getItemRow h par) (\<lambda>r.
          case r of None \<Rightarrow> Inr QModelIndex | Some k \<Rightarrow> Inr (createIndex k 0 par))))"

definition rowCount :: "heap \<Rightarrow> qidx \<Rightarrow> pyerr + int" where
  "rowCount h parIndex = getItemRowCount h (internalPointer parIndex)"

subsection \<open>Editing a cell\<close>

abbreviation (input) Qt_EditRole :: int where "Qt_EditRole \<equiv> 2"
abbreviation (input) Qt_CheckStateRole :: int where "Qt_CheckStateRole \<equiv> 10"
abbreviation (input) Qt_Unchecked :: pyval where "Qt_Unchecked \<equiv> VInt 0"
abbreviation (input) Qt_PartiallyChecked :: pyval where "Qt_PartiallyChecked \<equiv> VInt 1"
abbreviation (input) Qt_Checked :: pyval where "Qt_Checked \<equiv> VInt 2"

definition isinstance_of :: "heap \<Rightarrow> ref option \<Rightarrow> cls list \<Rightarrow> bool" where
  "isinstance_of h item cs = list_ex (isinstance h item) cs"

fun set_enabled :: "bool \<Rightarrow> obj \<Rightarrow> obj" where
  "set_enabled b (Slider n g p e v) = Slider n g p b v"
| "set_enabled b (Combo n g ps p e) = Combo n g ps p b"
| "set_enabled b (Traversal n g pc mc p e) = Traversal n g pc mc p b"
| "set_enabled b x = x"

fun set_name :: "pyval \<Rightarrow> obj \<Rightarrow> obj" where
  "set_name a (Slider n g p e v) = Slider a g p e v"
| "set_name a (Combo n g ps p e) = Combo a g ps p e"
| "set_name a (Traversal n g pc mc p e) = Traversal a g pc mc p e"
| "set_name a (ProgPair n p s v) = ProgPair a p s v"
| "set_name a x = x"

fun set_val :: "pyval \<Rightarrow> obj \<Rightarrow> obj" where
  "set_val a (Slider n g p e v) = Slider n g p e a"
| "set_val a (ComboPair n s c v) = ComboPair n s c a"
| "set_val a (TravPair n t u v k) = TravPair n t u a k"
| "set_val a (ProgPair n p s v) = ProgPair n p s a"
| "set_val a x = x"

definition setattr :: "(obj \<Rightarrow> obj) \<Rightarrow> ref option \<Rightarrow> world \<Rightarrow> world" where
  "setattr f item w =
     (case item of None \<Rightarrow> w | Some r \<Rightarrow> w\<lparr>store := (store w)(r := f (store w r))\<rparr>)"

definition setData :: "world \<Rightarrow> qidx \<Rightarrow> pyval \<Rightarrow> int \<Rightarrow> world \<times> bool" where
  "setData w i v role =
     (if \<not> isValid i then (w, False)
      else if role = Qt_CheckStateRole then
        (let item = internalPointer i in
         if idx_column i = 0 \<and> isinstance_of (store w) item [CSlider, CCombo, CTraversal]
         then (emit (DataChanged i i) (setattr (set_enabled (py_eq v Qt_Checked)) item w), True)
         else (w, False))
      else if role = Qt_EditRole then
        (let item = internalPointer i in
         if idx_column i = 0 then
           (if isinstance_of (store w) item [CSlider, CCombo, CTraversal, CProgPair]
            then (emit (DataChanged i i) (setattr (set_name v) item w), True)
            else (w, False))
         else if idx_column i = 1 then
           (if isinstance (store w) item CSlider then (setattr (set_val v) item w, False)
            else if isinstance (store w) item CComboPair then (setattr (set_val v) item w, False)
            else if isinstance (store w) item CTravPair then (setattr (set_val v) item w, False)
            else (w, False))
         else if idx_column i = 2 then
           (if isinstance (store w) item CProgPair then (setattr (set_val v) item w, False)
            else (w, False))
         else (w, False))
      else (w, False))"

section \<open>The transactional brackets of \<^verbatim>\<open>ContextModel\<close>\<close>

text \<open>
  Each bracket is a generator-based context manager around the caller's block. The block
  is a function on the world that returns the world it leaves behind and the exception
  it raised, if any. The brackets are written over the methods a concrete model
  supplies: its \<^verbatim>\<open>getItemRow\<close>, its \<^verbatim>\<open>getItemAppendRow\<close> and, for \<^verbatim>\<open>idx.parent()\<close>, its
  \<^verbatim>\<open>parent\<close>. An exception raised before the \<^verbatim>\<open>yield\<close> leaves the bracket without running
  the block.
\<close>

type_synonym block = "world \<Rightarrow> world \<times> pyerr option"

definition insertItemManager ::
  "(heap \<Rightarrow> ref option \<Rightarrow> pyerr + int option) \<Rightarrow> (heap \<Rightarrow> ref option \<Rightarrow> pyerr + int)
   \<Rightarrow> world \<Rightarrow> ref option \<Rightarrow> int \<Rightarrow> block \<Rightarrow> world \<times> pyerr option" where
  "insertItemManager getRow getAppendRow w par r body =
     (case indexFromItem getRow (store w) par 0 of
        Inl e \<Rightarrow> (w, Some e)
      | Inr parIdx \<Rightarrow>
          if isValid parIdx then
            (case (if r = -1 then getAppendRow (store w) par else Inr r) of
               Inl e \<Rightarrow> (w, Some e)
             | Inr r' \<Rightarrow>
                 (case body (emit (BeginInsertRows parIdx r' r') w) of
                    (w', exc) \<Rightarrow> (emit EndInsertRows w', exc)))
          else body w)"

definition removeItemManager ::
  "(heap \<Rightarrow> ref option \<Rightarrow> pyerr + int option) \<Rightarrow> (heap \<Rightarrow> qidx \<Rightarrow> pyerr + qidx)
   \<Rightarrow> world \<Rightarrow> ref option \<Rightarrow> block \<Rightarrow> world \<times> pyerr option" where
  "removeItemManager getRow parentOf w item body =
     (case indexFromItem getRow (store w) item 0 of
        Inl e \<Rightarrow> (w, Some e)
      | Inr idx \<Rightarrow>
          if isValid idx then
            (case parentOf (store w) idx of
               Inl e \<Rightarrow> (w, Some e)
             | Inr parIdx \<Rightarrow>
                 (case body (emit (BeginRemoveRows parIdx (idx_row idx) (idx_row idx)) w) of
                    (w', exc) \<Rightarrow> (emit EndRemoveRows w', exc)))
          else body w)"

definition moveItemManager ::
  "(heap \<Rightarrow> ref option \<Rightarrow> pyerr + int option) \<Rightarrow> (heap \<Rightarrow> ref option \<Rightarrow> pyerr + int)
   \<Rightarrow> (heap \<Rightarrow> qidx \<Rightarrow> pyerr + qidx)
   \<Rightarrow> world \<Rightarrow> ref option \<Rightarrow> ref option \<Rightarrow> int \<Rightarrow> block \<Rightarrow> world \<times> pyerr option" where
  "moveItemManager getRow getAppendRow parentOf w item destPar destRow body =
     (case indexFromItem getRow (store w) item 0 of
        Inl e \<Rightarrow> (w, Some e)
      | Inr itemIdx \<Rightarrow>
     (case indexFromItem getRow (store w) destPar 0 of
        Inl e \<Rightarrow> (w, Some e)
      | Inr destParIdx \<Rightarrow>
          if isValid itemIdx \<and> isValid destParIdx then
            (case parentOf (store w) itemIdx of
               Inl e \<Rightarrow> (w, Some e)
             | Inr srcParIdx \<Rightarrow>
            (case (if destRow = -1 then getAppendRow (store w) destPar else Inr destRow) of
               Inl e \<Rightarrow> (w, Some e)
             | Inr destRow' \<Rightarrow>
                 (case body (emit (BeginMoveRows srcParIdx (idx_row itemIdx) (idx_row itemIdx)
                                     destParIdx destRow') w) of
                    (w', exc) \<Rightarrow> (emit EndMoveRows w', exc))))
          else body w))"

definition resetModelManager :: "world \<Rightarrow> block \<Rightarrow> world \<times> pyerr option" where
  "resetModelManager w body =
     (case body (emit BeginResetModel w) of (w', exc) \<Rightarrow> (emit EndResetModel w', exc))"

section \<open>Strings and regular expressions\<close>

text \<open>
  \<^verbatim>\<open>str.split()\<close> without arguments: the maximal runs of characters that are not
  whitespace. \<open>split_ws cur s\<close> carries the token being read.
\<close>

definition is_space :: "char \<Rightarrow> bool" where
  "is_space c \<longleftrightarrow> c \<in> set [CHR '' '', CHR 0x09, CHR 0x0A, CHR 0x0B, CHR 0x0C, CHR 0x0D]"

fun split_ws :: "string \<Rightarrow> string \<Rightarrow> string list" where
  "split_ws cur [] = (if cur = [] then [] else [cur])"
| "split_ws cur (c # cs) =
     (if is_space c then (if cur = [] then split_ws [] cs else cur # split_ws [] cs)
      else split_ws (cur @ [c]) cs)"

definition py_split :: "string \<Rightarrow> string list" where
  "py_split s = split_ws [] s"

text \<open>\<^verbatim>\<open>sep.join(parts)\<close>; joining a string joins its characters.\<close>

fun py_join :: "string \<Rightarrow> string list \<Rightarrow> string" where
  "py_join sep [] = []"
| "py_join sep [x] = x"
| "py_join sep (x # y # ys) = x @ sep @ py_join sep (y # ys)"

definition chars :: "string \<Rightarrow> string list" where
  "chars s = map (\<lambda>c. [c]) s"

text \<open>
  The part of Python's \<^verbatim>\<open>re\<close> that the filter can reach with tokens made of ordinary
  characters, the dot and the repeat characters \<^verbatim>\<open>*\<close>, \<^verbatim>\<open>+\<close>, \<^verbatim>\<open>?\<close>. The parser follows
  \<^verbatim>\<open>sre_parse\<close>: an ordinary character is a literal, the dot is any character but a
  newline, a repeat character applies to the item before it and may be followed by
  \<^verbatim>\<open>?\<close> for the lazy variant; a repeat with nothing before it raises
  \<^verbatim>\<open>nothing to repeat\<close>, a repeat of a repeat raises \<^verbatim>\<open>multiple repeat\<close>. The other
  special characters (backslash, brackets, braces, parentheses, anchors, the bar) are
  outside this fragment and are reported as \<open>NotModelled\<close>.
\<close>

datatype atom = Lit char | AnyChar

datatype node = One atom | Repeat bool nat "nat option" atom

type_synonym regex = "node list"

definition repeat_bounds :: "char \<Rightarrow> (nat \<times> nat option) option" where
  "repeat_bounds c =
     (if c = CHR ''*'' then Some (0, None)
      else if c = CHR ''+'' then Some (1, None)
      else if c = CHR ''?'' then Some (0, Some 1)
      else None)"

definition outside_fragment :: "char \<Rightarrow> bool" where
  "outside_fragment c \<longleftrightarrow> c \<in> set [CHR 0x5C, CHR ''['', CHR ''{'', CHR ''('', CHR '')'',
                                     CHR ''^'', CHR ''$'', CHR ''|'']"

fun sre_parse :: "string \<Rightarrow> regex \<Rightarrow> pyerr + regex" where
  "sre_parse [] seen = Inr seen"
| "sre_parse (c # cs) seen =
     (case repeat_bounds c of
        Some (lo, hi) \<Rightarrow>
          (if seen = [] then Inl (ReError ''nothing to repeat'')
           else case last seen of
                  Repeat _ _ _ _ \<Rightarrow> Inl (ReError ''multiple repeat'')
                | One a \<Rightarrow>
                    (case cs of
                       d # ds \<Rightarrow>
                         if d = CHR ''?'' then sre_parse ds (butlast seen @ [Repeat True lo hi a])
                         else sre_parse cs (butlast seen @ [Repeat False lo hi a])
                     | [] \<Rightarrow> sre_parse cs (butlast seen @ [Repeat False lo hi a])))
      | None \<Rightarrow>
          if c = CHR ''.'' then sre_parse cs (seen @ [One AnyChar])
          else if outside_fragment c then Inl NotModelled
          else sre_parse cs (seen @ [One (Lit c)]))"

text \<open>\<^verbatim>\<open>re.compile(pattern, flags=re.I)\<close>.\<close>

definition re_compile :: "string \<Rightarrow> pyerr + regex" where
  "re_compile p = sre_parse p []"

text \<open>
  Matching under \<^verbatim>\<open>re.I\<close>: letters compare by their ASCII lower case. Whether a match
  exists does not depend on a repeat being greedy or lazy, so the flag is not consulted.
\<close>

definition lower :: "char \<Rightarrow> char" where
  "lower c =
     (case map_of (zip ''ABCDEFGHIJKLMNOPQRSTUVWXYZ'' ''abcdefghijklmnopqrstuvwxyz'') c of
        Some l \<Rightarrow> l
      | None \<Rightarrow> c)"

fun atom_ok :: "atom \<Rightarrow> char \<Rightarrow> bool" where
  "atom_ok (Lit p) c = (lower p = lower c)"
| "atom_ok AnyChar c = (c \<noteq> CHR 0x0A)"

fun match_rep :: "atom \<Rightarrow> nat \<Rightarrow> nat option \<Rightarrow> (string \<Rightarrow> bool) \<Rightarrow> string \<Rightarrow> bool" where
  "match_rep a lo hi k [] = (lo = 0 \<and> k [])"
| "match_rep a lo hi k (c # cs) =
     ((lo = 0 \<and> k (c # cs))
      \<or> (hi \<noteq> Some 0 \<and> atom_ok a c
          \<and> match_rep a (lo - 1) (map_option (\<lambda>m. m - 1) hi) k cs))"

fun match_here :: "regex \<Rightarrow> string \<Rightarrow> bool" where
  "match_here [] s = True"
| "match_here (One a # ns) s = (case s of [] \<Rightarrow> False | c # cs \<Rightarrow> atom_ok a c \<and> match_here ns cs)"
| "match_here (Repeat lazy lo hi a # ns) s = match_rep a lo hi (match_here ns) s"

text \<open>\<^verbatim>\<open>reg.search(s)\<close> as a truth value: a match starting at some position of \<open>s\<close>.\<close>

fun re_search :: "regex \<Rightarrow> string \<Rightarrow> bool" where
  "re_search ns [] = match_here ns []"
| "re_search ns (c # cs) = (match_here ns (c # cs) \<or> re_search ns cs)"

text \<open>Searching in a value that is not a string raises \<^verbatim>\<open>TypeError\<close>.\<close>

fun search_val :: "regex \<Rightarrow> pyval \<Rightarrow> pyerr + bool" where
  "search_val ns (VStr s) = Inr (re_search ns s)"
| "search_val ns _ = Inl TypeError"

text \<open>
  A plain character is one that is not special to \<^verbatim>\<open>re\<close>. For a token of plain characters,
  \<open>fuzzy_regex\<close> is the regex with a lazy any-character span between each two characters
  of the token.
\<close>

definition plain_char :: "char \<Rightarrow> bool" where
  "plain_char c \<longleftrightarrow> repeat_bounds c = None \<and> c \<noteq> CHR ''.'' \<and> \<not> outside_fragment c"

definition plain_token :: "string \<Rightarrow> bool" where
  "plain_token tok \<longleftrightarrow> tok \<noteq> [] \<and> list_all plain_char tok"

fun fuzzy_regex :: "string \<Rightarrow> regex" where
  "fuzzy_regex [] = []"
| "fuzzy_regex [c] = [One (Lit c)]"
| "fuzzy_regex (c # d # cs) = One (Lit c) # Repeat True 0 None AnyChar # fuzzy_regex (d # cs)"

section \<open>The name filter proxy\<close>

text \<open>
  A filter proxy sits on a source proxy, which sits on the tree model. Of the source
  proxy the filter uses \<^verbatim>\<open>index\<close> and \<^verbatim>\<open>itemFromIndex\<close>; of the framework's base class it
  uses \<^verbatim>\<open>QSortFilterProxyModel.filterAcceptsRow\<close>, the verdict every
  \<^verbatim>\<open>filterAcceptsRow\<close> of this file ends with. Both belong to the view framework and are
  carried as fields. \<open>treeModel\<close> is \<^verbatim>\<open>self.sourceModel().sourceModel()\<close>.
\<close>

record SimplexFilterModel =
  p_filterString :: "string list"
  p_filterReg :: "regex list"
  isolateList :: "pyval list"
  source_index :: "int \<Rightarrow> int \<Rightarrow> qidx \<Rightarrow> pyerr + qidx"
  source_itemFromIndex :: "qidx \<Rightarrow> ref option"
  treeModel :: SimplexModel
  base_filterAcceptsRow :: "int \<Rightarrow> qidx \<Rightarrow> bool"

text \<open>The property \<^verbatim>\<open>filterString\<close> and its setter. The setter stores the tokens, empties
  the regex list and compiles token by token; when a token does not compile the
  exception leaves the setter with the regexes compiled so far.\<close>

definition filterString :: "'a SimplexFilterModel_scheme \<Rightarrow> string" where
  "filterString self = py_join '' '' (p_filterString self)"

definition compile_token :: "string \<Rightarrow> pyerr + regex" where
  "compile_token sp =
     (case sp of
        [] \<Rightarrow> Inl IndexError
      | c # _ \<Rightarrow> if c = CHR ''*'' then re_compile sp else re_compile (py_join ''.*?'' (chars sp)))"

fun compile_tokens :: "string list \<Rightarrow> regex list \<Rightarrow> regex list \<times> pyerr option" where
  "compile_tokens [] regs = (regs, None)"
| "compile_tokens (sp # sps) regs =
     (case compile_token sp of
        Inl e \<Rightarrow> (regs, Some e)
      | Inr reg \<Rightarrow> compile_tokens sps (regs @ [reg]))"

definition set_filterString ::
  "'a SimplexFilterModel_scheme \<Rightarrow> string \<Rightarrow> 'a SimplexFilterModel_scheme \<times> pyerr option" where
  "set_filterString self v =
     (case compile_tokens (py_split v) [] of
        (regs, exc) \<Rightarrow> (self\<lparr>p_filterString := py_split v, p_filterReg := regs\<rparr>, exc))"

fun search_any :: "regex list \<Rightarrow> pyval \<Rightarrow> pyerr + bool" where
  "search_any [] itemString = Inr False"
| "search_any (reg # regs) itemString =
     ebind (search_val reg itemString) (\<lambda>found.
       if found then Inr True else search_any regs itemString)"

definition matchFilterString :: "'a SimplexFilterModel_scheme \<Rightarrow> pyval \<Rightarrow> pyerr + bool" where
  "matchFilterString self itemString =
     (if p_filterString self = [] then Inr True
      else search_any (p_filterReg self) itemString)"

definition py_in :: "pyval \<Rightarrow> pyval list \<Rightarrow> bool" where
  "py_in v xs = list_ex (py_eq v) xs"

definition matchIsolation :: "'a SimplexFilterModel_scheme \<Rightarrow> pyval \<Rightarrow> bool" where
  "matchIsolation self itemString =
     (if isolateList self \<noteq> [] then py_in itemString (isolateList self) else True)"

text \<open>The loop of \<^verbatim>\<open>checkChildren\<close> over the rows: the first child that is not \<^verbatim>\<open>None\<close>.\<close>

fun first_child :: "SimplexModel \<Rightarrow> heap \<Rightarrow> ref option \<Rightarrow> int list \<Rightarrow> pyerr + ref option" where
  "first_child m h item [] = Inr None"
| "first_child m h item (r # rs) =
     ebind (getChildItem m h item r) (\<lambda>childItem.
       case childItem of None \<Rightarrow> first_child m h item rs | Some c \<Rightarrow> Inr (Some c))"

definition xrange :: "int \<Rightarrow> int list" where
  "xrange n = map int [0..<nat n]"

text \<open>
  \<^verbatim>\<open>checkChildren\<close> calls itself on the first child it finds; on a store whose child
  links run in a circle it does not return, which is the value \<open>None\<close>.
\<close>

partial_function (option) checkChildren ::
  "'a SimplexFilterModel_scheme \<Rightarrow> heap \<Rightarrow> ref option \<Rightarrow> (pyerr + bool) option" where
  "checkChildren self h sourceItem =
     (case get_name h sourceItem of
        Inl e \<Rightarrow> Some (Inl e)
      | Inr itemString \<Rightarrow>
     (case matchFilterString self itemString of
        Inl e \<Rightarrow> Some (Inl e)
      | Inr matched \<Rightarrow>
          if matched \<and> matchIsolation self itemString then Some (Inr True)
          else
            (case getItemRowCount h sourceItem of
               Inl e \<Rightarrow> Some (Inl e)
             | Inr n \<Rightarrow>
            (case first_child (treeModel self) h sourceItem (xrange n) of
               Inl e \<Rightarrow> Some (Inl e)
             | Inr None \<Rightarrow> Some (Inr False)
             | Inr (Some childItem) \<Rightarrow> checkChildren self h (Some childItem)))))"

definition SimplexFilterModel_filterAcceptsRow ::
  "'a SimplexFilterModel_scheme \<Rightarrow> heap \<Rightarrow> int \<Rightarrow> qidx \<Rightarrow> (pyerr + bool) option" where
  "SimplexFilterModel_filterAcceptsRow self h sourceRow sourceParent =
     (case source_index self sourceRow 0 sourceParent of
        Inl e \<Rightarrow> Some (Inl e)
      | Inr sourceIndex \<Rightarrow>
          if isValid sourceIndex
             \<and> (filterString self \<noteq> [] \<or> isolateList self \<noteq> [])
             \<and> isinstance_of h (source_itemFromIndex self sourceIndex)
                   [CProgPair, CSlider, CCombo, CComboPair, CProgression]
          then
            (case checkChildren self h (source_itemFromIndex self sourceIndex) of
               None \<Rightarrow> None
             | Some (Inl e) \<Rightarrow> Some (Inl e)
             | Some (Inr ok) \<Rightarrow>
                 if \<not> ok then Some (Inr False)
                 else Some (Inr (base_filterAcceptsRow self sourceRow sourceParent)))
          else Some (Inr (base_filterAcceptsRow self sourceRow sourceParent)))"

section \<open>The combo filter proxy\<close>

record ComboFilterModel = SimplexFilterModel +
  requires :: "ref list"
  filterRequiresAll :: bool
  filterRequiresAny :: bool
  filterRequiresOnly :: bool
  filterShapes :: bool

text \<open>\<^verbatim>\<open>[i.slider for i in data.pairs]\<close>.\<close>

fun pair_sliders :: "heap \<Rightarrow> ref list \<Rightarrow> pyerr + ref option list" where
  "pair_sliders h [] = Inr []"
| "pair_sliders h (i # is) =
     ebind (get_slider h (Some i)) (\<lambda>s.
     ebind (pair_sliders h is) (\<lambda>ss. Inr (s # ss)))"

text \<open>The part that hides trivial shapes: \<open>Inr True\<close> stands for \<^verbatim>\<open>return False\<close>.\<close>

definition hides_shape :: "heap \<Rightarrow> ref option \<Rightarrow> pyerr + bool" where
  "hides_shape h data =
     (if isinstance h data CProgression then
        ebind (get_pairs h data) (\<lambda>ps. Inr (py_len ps \<le> 2))
      else if isinstance h data CProgPair then
        ebind (get_prog h data) (\<lambda>p.
        ebind (get_pairs h p) (\<lambda>ps.
          if py_len ps \<le> 2 then Inr True
          else ebind (get_shape h data) (\<lambda>s. get_isRest h s)))
      else Inr False)"

text \<open>The dependency test on a Combo: \<open>Inr True\<close> stands for \<^verbatim>\<open>return False\<close>.\<close>

definition fails_requires :: "ComboFilterModel \<Rightarrow> heap \<Rightarrow> ref option \<Rightarrow> pyerr + bool" where
  "fails_requires self h data =
     (if (filterRequiresAny self \<or> filterRequiresAll self \<or> filterRequiresOnly self)
         \<and> requires self \<noteq> []
      then
        (if isinstance h data CCombo then
           ebind (get_pairs h data) (\<lambda>ps.
           ebind (pair_sliders h ps) (\<lambda>sliders.
             if filterRequiresAll self then
               Inr (\<not> list_all (\<lambda>r. Some r \<in> set sliders) (requires self))
             else if filterRequiresAny self then
               Inr (\<not> list_ex (\<lambda>r. Some r \<in> set sliders) (requires self))
             else if filterRequiresOnly self then
               Inr (\<not> list_all (\<lambda>r. r \<in> set (map Some (requires self))) sliders)
             else Inr False))
         else Inr False)
      else Inr False)"

definition ComboFilterModel_filterAcceptsRow ::
  "ComboFilterModel \<Rightarrow> heap \<Rightarrow> int \<Rightarrow> qidx \<Rightarrow> (pyerr + bool) option" where
  "ComboFilterModel_filterAcceptsRow self h sourceRow sourceParent =
     (case source_index self sourceRow 0 sourceParent of
        Inl e \<Rightarrow> Some (Inl e)
      | Inr sourceIndex \<Rightarrow>
          if isValid sourceIndex then
            (let data = source_itemFromIndex self sourceIndex in
             case (if filterShapes self then hides_shape h data else Inr False) of
               Inl e \<Rightarrow> Some (Inl e)
             | Inr True \<Rightarrow> Some (Inr False)
             | Inr False \<Rightarrow>
                 (case fails_requires self h data of
                    Inl e \<Rightarrow> Some (Inl e)
                  | Inr True \<Rightarrow> Some (Inr False)
                  | Inr False \<Rightarrow>
                      SimplexFilterModel_filterAcceptsRow self h sourceRow sourceParent))
          else SimplexFilterModel_filterAcceptsRow self h sourceRow sourceParent)"

section \<open>Coercing a selection to one type\<close>

text \<open>
  \<^verbatim>\<open>classDepth\<close> is a class attribute of the item classes, declared with them outside this
  file; the functions below take the table \<open>cd\<close> from class to depth as a parameter. An
  index without a model has \<^verbatim>\<open>idx.model()\<close> equal to \<^verbatim>\<open>None\<close>, and an index without an
  item has \<^verbatim>\<open>itemFromIndex\<close> equal to \<^verbatim>\<open>None\<close>: both raise \<^verbatim>\<open>AttributeError\<close> at the next
  attribute access. The indices are those of the tree model.
\<close>

definition item_depth :: "(cls \<Rightarrow> int) \<Rightarrow> heap \<Rightarrow> qidx \<Rightarrow> pyerr + int" where
  "item_depth cd h idx =
     (if \<not> idx_model idx then Inl AttributeError
      else case itemFromIndex idx of
             None \<Rightarrow> Inl AttributeError
           | Some r \<Rightarrow> if h r = Other then Inl AttributeError else Inr (cd (classOf (h r))))"

fun map_err :: "('a \<Rightarrow> pyerr + 'b) \<Rightarrow> 'a list \<Rightarrow> pyerr + 'b list" where
  "map_err f [] = Inr []"
| "map_err f (x # xs) = ebind (f x) (\<lambda>y. ebind (map_err f xs) (\<lambda>ys. Inr (y # ys)))"

text \<open>\<^verbatim>\<open>[model.index(row, 0, checkIdx) for row in range(model.rowCount(checkIdx))]\<close>.\<close>

definition child_indexes :: "SimplexModel \<Rightarrow> heap \<Rightarrow> qidx \<Rightarrow> pyerr + qidx list" where
  "child_indexes model h checkIdx =
     ebind (rowCount h checkIdx) (\<lambda>n.
       map_err (\<lambda>r. index model h r 0 checkIdx) (xrange n))"

text \<open>
  The \<^verbatim>\<open>while queue\<close> loop of \<^verbatim>\<open>coerceIndexToChildType\<close>: \<^verbatim>\<open>queue.pop()\<close> takes the last
  index. The loop need not end on a store whose child links run in a circle below the
  target depth.
\<close>

partial_function (option) descend ::
  "SimplexModel \<Rightarrow> (cls \<Rightarrow> int) \<Rightarrow> heap \<Rightarrow> int \<Rightarrow> qidx list \<Rightarrow> qidx list
   \<Rightarrow> (pyerr + qidx list) option" where
  "descend model cd h targetDepth queue depthIdxs =
     (if queue = [] then Some (Inr depthIdxs)
      else
        (case item_depth cd h (last queue) of
           Inl e \<Rightarrow> Some (Inl e)
         | Inr d \<Rightarrow>
             if d < targetDepth then
               (case child_indexes model h (last queue) of
                  Inl e \<Rightarrow> Some (Inl e)
                | Inr kids \<Rightarrow> descend model cd h targetDepth (butlast queue @ kids) depthIdxs)
             else if d = targetDepth then
               descend model cd h targetDepth (butlast queue) (depthIdxs @ [last queue])
             else descend model cd h targetDepth (butlast queue) depthIdxs))"

text \<open>
  \<^verbatim>\<open>list(set(out))\<close> keeps one copy of each index in an order Python does not specify;
  the model keeps the order of \<open>remdups\<close>.
\<close>

fun childType_loop ::
  "SimplexModel \<Rightarrow> (cls \<Rightarrow> int) \<Rightarrow> heap \<Rightarrow> int \<Rightarrow> qidx list \<Rightarrow> qidx list
   \<Rightarrow> (pyerr + qidx list) option" where
  "childType_loop model cd h targetDepth [] out = Some (Inr out)"
| "childType_loop model cd h targetDepth (idx # idxs) out =
     (case item_depth cd h idx of
        Inl e \<Rightarrow> Some (Inl e)
      | Inr d \<Rightarrow>
          if d < targetDepth then
            (case descend model cd h targetDepth [idx] [] of
               None \<Rightarrow> None
             | Some (Inl e) \<Rightarrow> Some (Inl e)
             | Some (Inr depthIdxs) \<Rightarrow>
                 childType_loop model cd h targetDepth idxs (out @ depthIdxs))
          else if d = targetDepth then childType_loop model cd h targetDepth idxs (out @ [idx])
          else childType_loop model cd h targetDepth idxs out)"

definition coerceIndexToChildType ::
  "SimplexModel \<Rightarrow> (cls \<Rightarrow> int) \<Rightarrow> heap \<Rightarrow> qidx list \<Rightarrow> cls \<Rightarrow> (pyerr + qidx list) option" where
  "coerceIndexToChildType model cd h indexes typ =
     (case childType_loop model cd h (cd typ) indexes [] of
        None \<Rightarrow> None
      | Some (Inl e) \<Rightarrow> Some (Inl e)
      | Some (Inr out) \<Rightarrow> Some (Inr (remdups out)))"

text \<open>The \<^verbatim>\<open>while\<close> loop of \<^verbatim>\<open>coerceIndexToParentType\<close>: climb while the item is deeper
  than the target.\<close>

partial_function (option) climb ::
  "(cls \<Rightarrow> int) \<Rightarrow> heap \<Rightarrow> int \<Rightarrow> qidx \<Rightarrow> (pyerr + qidx) option" where
  "climb cd h targetDepth parIdx =
     (case item_depth cd h parIdx of
        Inl e \<Rightarrow> Some (Inl e)
      | Inr d \<Rightarrow>
          if d > targetDepth then
            (case parent h parIdx of
               Inl e \<Rightarrow> Some (Inl e)
             | Inr p \<Rightarrow> climb cd h targetDepth p)
          else Some (Inr parIdx))"

fun parentType_loop ::
  "(cls \<Rightarrow> int) \<Rightarrow> heap \<Rightarrow> int \<Rightarrow> qidx list \<Rightarrow> qidx list \<Rightarrow> (pyerr + qidx list) option" where
  "parentType_loop cd h targetDepth [] out = Some (Inr out)"
| "parentType_loop cd h targetDepth (idx # idxs) out =
     (case item_depth cd h idx of
        Inl e \<Rightarrow> Some (Inl e)
      | Inr d \<Rightarrow>
          if d > targetDepth then
            (case climb cd h targetDepth idx of
               None \<Rightarrow> None
             | Some (Inl e) \<Rightarrow> Some (Inl e)
             | Some (Inr parIdx) \<Rightarrow>
                 (case item_depth cd h parIdx of
                    Inl e \<Rightarrow> Some (Inl e)
                  | Inr d' \<Rightarrow>
                      if d' = targetDepth
                      then parentType_loop cd h targetDepth idxs (out @ [parIdx])
                      else parentType_loop cd h targetDepth idxs out))
          else if d = targetDepth then parentType_loop cd h targetDepth idxs (out @ [idx])
          else parentType_loop cd h targetDepth idxs out)"

definition coerceIndexToParentType ::
  "(cls \<Rightarrow> int) \<Rightarrow> heap \<Rightarrow> qidx list \<Rightarrow> cls \<Rightarrow> (pyerr + qidx list) option" where
  "coerceIndexToParentType cd h indexes typ =
     (case parentType_loop cd h (cd typ) indexes [] of
        None \<Rightarrow> None
      | Some (Inl e) \<Rightarrow> Some (Inl e)
      | Some (Inr out) \<Rightarrow> Some (Inr (remdups out)))"

text \<open>The first loop of \<^verbatim>\<open>coerceIndexToType\<close> sorts the indices into \<^verbatim>\<open>parents\<close>,
  \<^verbatim>\<open>children\<close> and \<^verbatim>\<open>out\<close>.\<close>

fun sort_by_depth ::
  "(cls \<Rightarrow> int) \<Rightarrow> heap \<Rightarrow> int \<Rightarrow> qidx list \<Rightarrow> qidx list \<times> qidx list \<times> qidx list
   \<Rightarrow> pyerr + qidx list \<times> qidx list \<times> qidx list" where
  "sort_by_depth cd h targetDepth [] acc = Inr acc"
| "sort_by_depth cd h targetDepth (idx # idxs) (children, parents, out) =
     ebind (item_depth cd h idx) (\<lambda>depth.
       if depth < targetDepth
       then sort_by_depth cd h targetDepth idxs (children, parents @ [idx], out)
       else if depth > targetDepth
       then sort_by_depth cd h targetDepth idxs (children @ [idx], parents, out)
       else sort_by_depth cd h targetDepth idxs (children, parents, out @ [idx]))"

definition coerceIndexToType ::
  "SimplexModel \<Rightarrow> (cls \<Rightarrow> int) \<Rightarrow> heap \<Rightarrow> qidx list \<Rightarrow> cls \<Rightarrow> (pyerr + qidx list) option" where
  "coerceIndexToType model cd h indexes typ =
     (case sort_by_depth cd h (cd typ) indexes ([], [], []) of
        Inl e \<Rightarrow> Some (Inl e)
      | Inr (children, parents, out) \<Rightarrow>
     (case coerceIndexToChildType model cd h parents typ of
        None \<Rightarrow> None
      | Some (Inl e) \<Rightarrow> Some (Inl e)
      | Some (Inr down) \<Rightarrow>
     (case coerceIndexToParentType cd h children typ of
        None \<Rightarrow> None
      | Some (Inl e) \<Rightarrow> Some (Inl e)
      | Some (Inr up) \<Rightarrow> Some (Inr (remdups (out @ down @ up))))))"

text \<open>
  An index lies above the target depth when its item's depth is smaller, and at or below
  it otherwise; an index whose depth cannot be read is neither.
\<close>

definition at_or_below :: "(cls \<Rightarrow> int) \<Rightarrow> heap \<Rightarrow> int \<Rightarrow> qidx \<Rightarrow> bool" where
  "at_or_below cd h t e \<longleftrightarrow> (case item_depth cd h e of Inl _ \<Rightarrow> False | Inr d \<Rightarrow> t \<le> d)"

definition above :: "(cls \<Rightarrow> int) \<Rightarrow> heap \<Rightarrow> int \<Rightarrow> qidx \<Rightarrow> bool" where
  "above cd h t e \<longleftrightarrow> (case item_depth cd h e of Inl _ \<Rightarrow> False | Inr d \<Rightarrow> d < t)"

section \<open>The falloff model\<close>

record FalloffModel =
  fm_simplex :: "ref option"
  sliders :: "ref list"
  p_checks :: "ref \<Rightarrow> ref list option"
  line :: string

text \<open>\<^verbatim>\<open>self._checks.get(fo, [])\<close> and \<^verbatim>\<open>self._checks.setdefault(fo, []).append(slider)\<close>.\<close>

definition checks_get :: "(ref \<Rightarrow> ref list option) \<Rightarrow> ref \<Rightarrow> ref list" where
  "checks_get ck fo = (case ck fo of None \<Rightarrow> [] | Some l \<Rightarrow> l)"

definition checks_append :: "ref \<Rightarrow> ref \<Rightarrow> (ref \<Rightarrow> ref list option) \<Rightarrow> (ref \<Rightarrow> ref list option)" where
  "checks_append fo s ck = ck(fo \<mapsto> checks_get ck fo @ [s])"

definition getCheckState :: "FalloffModel \<Rightarrow> ref \<Rightarrow> pyval" where
  "getCheckState self fo =
     (let sli = checks_get (p_checks self) fo in
      if length sli = length (sliders self) then Qt_Checked
      else if length sli = 0 then Qt_Unchecked
      else Qt_PartiallyChecked)"

text \<open>\<^verbatim>\<open>sep.join(names)\<close> raises \<^verbatim>\<open>TypeError\<close> on a name that is not a string.\<close>

fun str_values :: "pyval list \<Rightarrow> pyerr + string list" where
  "str_values [] = Inr []"
| "str_values (VStr s # vs) = ebind (str_values vs) (\<lambda>ss. Inr (s # ss))"
| "str_values (_ # vs) = Inl TypeError"

definition join_values :: "string \<Rightarrow> pyval list \<Rightarrow> pyerr + string" where
  "join_values sep vs = ebind (str_values vs) (\<lambda>ss. Inr (py_join sep ss))"

fun line_names ::
  "FalloffModel \<Rightarrow> heap \<Rightarrow> ref list \<Rightarrow> pyval list \<times> pyval list \<Rightarrow> pyerr + pyval list \<times> pyval list" where
  "line_names self h [] acc = Inr acc"
| "line_names self h (fo # fos) (fulls, partials) =
     (let cs = getCheckState self fo in
      if py_eq cs Qt_Checked then
        ebind (get_name h (Some fo)) (\<lambda>n. line_names self h fos (fulls @ [n], partials))
      else if py_eq cs Qt_PartiallyChecked then
        ebind (get_name h (Some fo)) (\<lambda>n. line_names self h fos (fulls, partials @ [n]))
      else line_names self h fos (fulls, partials))"

definition buildLine :: "FalloffModel \<Rightarrow> heap \<Rightarrow> pyerr + FalloffModel" where
  "buildLine self h =
     (if sliders self = [] then Inr (self\<lparr>line := []\<rparr>)
      else
        ebind (get_falloffs h (fm_simplex self)) (\<lambda>fos.
        ebind (line_names self h fos ([], [])) (\<lambda>(fulls, partials).
          if partials \<noteq> [] then
            ebind (join_values '','' fulls) (\<lambda>a.
            ebind (join_values '','' partials) (\<lambda>b.
              Inr (self\<lparr>line := a @ '' <<'' @ b @ ''>>''\<rparr>)))
          else
            ebind (join_values '','' fulls) (\<lambda>a. Inr (self\<lparr>line := a\<rparr>)))))"

text \<open>The two loops of \<^verbatim>\<open>setSliders\<close> that fill \<^verbatim>\<open>_checks\<close>.\<close>

fun checks_of_falloffs :: "ref \<Rightarrow> ref list \<Rightarrow> (ref \<Rightarrow> ref list option) \<Rightarrow> (ref \<Rightarrow> ref list option)" where
  "checks_of_falloffs s [] ck = ck"
| "checks_of_falloffs s (fo # fos) ck = checks_of_falloffs s fos (checks_append fo s ck)"

fun checks_of_sliders ::
  "heap \<Rightarrow> ref list \<Rightarrow> (ref \<Rightarrow> ref list option) \<Rightarrow> (ref \<Rightarrow> ref list option) \<times> pyerr option" where
  "checks_of_sliders h [] ck = (ck, None)"
| "checks_of_sliders h (s # ss) ck =
     (case ebind (get_prog h (Some s)) (get_falloffs h) of
        Inl e \<Rightarrow> (ck, Some e)
      | Inr fos \<Rightarrow> checks_of_sliders h ss (checks_of_falloffs s fos ck))"

text \<open>
  \<^verbatim>\<open>setSliders\<close> has no cleanup: an exception in the loops or in \<^verbatim>\<open>buildLine\<close> leaves the
  method with what was done until then.
\<close>

definition setSliders ::
  "FalloffModel \<Rightarrow> world \<Rightarrow> ref list \<Rightarrow> (FalloffModel \<times> world) \<times> pyerr option" where
  "setSliders self w sl =
     (let w1 = emit BeginResetModel w in
      case checks_of_sliders (store w1) sl Map.empty of
        (ck, Some e) \<Rightarrow> ((self\<lparr>sliders := sl, p_checks := ck\<rparr>, w1), Some e)
      | (ck, None) \<Rightarrow>
          (let self1 = self\<lparr>sliders := sl, p_checks := ck\<rparr>;
               w2 = emit EndResetModel w1
           in case buildLine self1 (store w2) of
                Inl e \<Rightarrow> ((self1, w2), Some e)
              | Inr self2 \<Rightarrow> ((self2, w2), None)))"

text \<open>
  Modelled from the spec: \<^verbatim>\<open>Progression.addFalloff\<close> and \<^verbatim>\<open>Progression.removeFalloff\<close> are
  methods of the domain objects, outside this file. The spec has a toggle add the falloff
  to, or remove it from, the slider's progression; here \<^verbatim>\<open>addFalloff\<close> appends the falloff
  to the progression's falloff list, \<^verbatim>\<open>removeFalloff\<close> removes it from the list, and an
  object that is no Progression has neither method.
\<close>

fun add_falloff :: "ref \<Rightarrow> obj \<Rightarrow> obj" where
  "add_falloff fo (Progression n c ps fos) = Progression n c ps (fos @ [fo])"
| "add_falloff fo x = x"

fun remove_falloff :: "ref \<Rightarrow> obj \<Rightarrow> obj" where
  "remove_falloff fo (Progression n c ps fos) = Progression n c ps (remove1 fo fos)"
| "remove_falloff fo x = x"

definition call_method :: "(obj \<Rightarrow> obj) \<Rightarrow> heap \<Rightarrow> ref option \<Rightarrow> pyerr + heap" where
  "call_method f h p =
     (case p of
        None \<Rightarrow> Inl AttributeError
      | Some r \<Rightarrow> if is_Progression (h r) then Inr (h(r := f (h r))) else Inl AttributeError)"

definition addFalloff :: "heap \<Rightarrow> ref option \<Rightarrow> ref \<Rightarrow> pyerr + heap" where
  "addFalloff h p fo = call_method (add_falloff fo) h p"

definition removeFalloff :: "heap \<Rightarrow> ref option \<Rightarrow> ref \<Rightarrow> pyerr + heap" where
  "removeFalloff h p fo = call_method (remove_falloff fo) h p"

text \<open>The loop of \<^verbatim>\<open>setData\<close> for \<^verbatim>\<open>Qt.Checked\<close>, over the store and \<^verbatim>\<open>_checks\<close>.\<close>

fun check_sliders ::
  "ref \<Rightarrow> ref list \<Rightarrow> heap \<times> (ref \<Rightarrow> ref list option)
   \<Rightarrow> (heap \<times> (ref \<Rightarrow> ref list option)) \<times> pyerr option" where
  "check_sliders fo [] hc = (hc, None)"
| "check_sliders fo (s # ss) (h, ck) =
     (case get_prog h (Some s) of
        Inl e \<Rightarrow> ((h, ck), Some e)
      | Inr p \<Rightarrow>
     (case get_falloffs h p of
        Inl e \<Rightarrow> ((h, ck), Some e)
      | Inr fos \<Rightarrow>
          if fo \<notin> set fos then
            (case addFalloff h p fo of
               Inl e \<Rightarrow> ((h, ck), Some e)
             | Inr h' \<Rightarrow> check_sliders fo ss (h', checks_append fo s ck))
          else check_sliders fo ss (h, ck)))"

text \<open>The loop for \<^verbatim>\<open>Qt.Unchecked\<close>; \<^verbatim>\<open>self._checks[fo]\<close> raises \<^verbatim>\<open>KeyError\<close> on a missing key.\<close>

fun uncheck_sliders ::
  "ref \<Rightarrow> ref list \<Rightarrow> heap \<times> (ref \<Rightarrow> ref list option)
   \<Rightarrow> (heap \<times> (ref \<Rightarrow> ref list option)) \<times> pyerr option" where
  "uncheck_sliders fo [] hc = (hc, None)"
| "uncheck_sliders fo (s # ss) (h, ck) =
     (case get_prog h (Some s) of
        Inl e \<Rightarrow> ((h, ck), Some e)
      | Inr p \<Rightarrow>
     (case get_falloffs h p of
        Inl e \<Rightarrow> ((h, ck), Some e)
      | Inr fos \<Rightarrow>
          if fo \<in> set fos then
            (case removeFalloff h p fo of
               Inl e \<Rightarrow> ((h, ck), Some e)
             | Inr h' \<Rightarrow>
                 (case ck fo of
                    None \<Rightarrow> ((h', ck), Some KeyError)
                  | Some l \<Rightarrow>
                      if s \<in> set l then uncheck_sliders fo ss (h', ck(fo \<mapsto> remove1 s l))
                      else uncheck_sliders fo ss (h', ck)))
          else uncheck_sliders fo ss (h, ck)))"

text \<open>
  \<^verbatim>\<open>FalloffModel.setData\<close>. The result is the value returned (\<^verbatim>\<open>True\<close>, \<^verbatim>\<open>False\<close>, or \<^verbatim>\<open>None\<close>
  for the bare \<^verbatim>\<open>return\<close>) or the exception, next to the model and the world as the call
  leaves them.
\<close>

definition FalloffModel_setData ::
  "FalloffModel \<Rightarrow> world \<Rightarrow> qidx \<Rightarrow> pyval \<Rightarrow> int \<Rightarrow> (FalloffModel \<times> world) \<times> (pyerr + pyval)" where
  "FalloffModel_setData self w i v role =
     (if role = Qt_CheckStateRole then
        (case internalPointer i of
           None \<Rightarrow> ((self, w), Inr VNone)
         | Some fo \<Rightarrow>
             (case (if py_eq v Qt_Checked
                    then check_sliders fo (sliders self) (store w, p_checks self)
                    else if py_eq v Qt_Unchecked
                    then uncheck_sliders fo (sliders self) (store w, p_checks self)
                    else ((store w, p_checks self), None)) of
                ((h, ck), Some e) \<Rightarrow> ((self\<lparr>p_checks := ck\<rparr>, w\<lparr>store := h\<rparr>), Inl e)
              | ((h, ck), None) \<Rightarrow>
                  (case buildLine (self\<lparr>p_checks := ck\<rparr>) h of
                     Inl e \<Rightarrow> ((self\<lparr>p_checks := ck\<rparr>, w\<lparr>store := h\<rparr>), Inl e)
                   | Inr self' \<Rightarrow>
                       ((self', emit (DataChanged i i) (w\<lparr>store := h\<rparr>)), Inr (VBool True)))))
      else ((self, w), Inr (VBool False)))"

text \<open>
  What the checkbox state is measured against: the falloffs a slider's progression
  references. A selection is well formed when each selected object is a Slider with a
  Progression, and its falloff lists are distinct when no progression lists a falloff
  twice.
\<close>

definition slider_falloffs :: "heap \<Rightarrow> ref \<Rightarrow> ref list" where
  "slider_falloffs h s = (case prog (h s) of None \<Rightarrow> [] | Some p \<Rightarrow> falloffs (h p))"

definition wf_selection :: "heap \<Rightarrow> ref list \<Rightarrow> bool" where
  "wf_selection h sl \<longleftrightarrow>
     list_all (\<lambda>s. classOf (h s) = CSlider
                \<and> (case prog (h s) of None \<Rightarrow> False | Some p \<Rightarrow> classOf (h p) = CProgression)) sl"

definition distinct_falloffs :: "heap \<Rightarrow> ref list \<Rightarrow> bool" where
  "distinct_falloffs h sl \<longleftrightarrow> list_all (\<lambda>s. distinct (slider_falloffs h s)) sl"

text \<open>
  The store after a toggle to checked, for the selected sliders \<open>S\<close>: the falloff is added
  to each progression of a selected slider that lacks it, and nothing else changes.
\<close>

definition toggled :: "ref \<Rightarrow> ref set \<Rightarrow> heap \<Rightarrow> heap" where
  "toggled fo S h =
     (\<lambda>r. if (\<exists>s \<in> S. prog (h s) = Some r) \<and> fo \<notin> set (falloffs (h r))
          then add_falloff fo (h r) else h r)"

section \<open>An example rig\<close>

text \<open>
  A small rig used to run the model: two slider groups, one combo group, a combo of three
  sliders whose progression holds the rest shape and one target, three falloffs, and a
  slider (\<open>50\<close>) that belongs to no group.
\<close>

definition rig :: heap where
  "rig = (\<lambda>_. Other)
    (0 := Simplex (VStr ''rig'') [1, 40] [2] [] [30, 31, 32],
     1 := Group (VStr ''mouth'') (Some 0) [3, 4] CSlider,
     2 := Group (VStr ''combos'') (Some 0) [6] CCombo,
     3 := Slider (VStr ''jawOpen'') (Some 1) (Some 10) True (VFloat 0),
     4 := Slider (VStr ''smile'') (Some 1) (Some 11) True (VFloat 0),
     5 := Slider (VStr ''blink'') (Some 40) (Some 12) True (VFloat 0),
     6 := Combo (VStr ''jawOpen_smile_blink'') (Some 2) [7, 8, 9] (Some 13) True,
     7 := ComboPair (VStr ''jawOpen'') (Some 3) (Some 6) (VFloat 1),
     8 := ComboPair (VStr ''smile'') (Some 4) (Some 6) (VFloat 1),
     9 := ComboPair (VStr ''blink'') (Some 5) (Some 6) (VFloat 1),
     10 := Progression (VStr ''jawOpen'') (Some 3) [14, 15, 16] [30, 32],
     11 := Progression (VStr ''smile'') (Some 4) [17, 18] [32],
     12 := Progression (VStr ''blink'') (Some 5) [19, 20] [30, 32],
     13 := Progression (VStr ''jawOpen_smile_blink'') (Some 6) [21, 22] [],
     14 := ProgPair (VStr ''Rest'') (Some 10) (Some 23) (VFloat 0),
     15 := ProgPair (VStr ''jawOpen_50'') (Some 10) (Some 24) (VFloat (1/2)),
     16 := ProgPair (VStr ''jawOpen'') (Some 10) (Some 25) (VFloat 1),
     17 := ProgPair (VStr ''Rest'') (Some 11) (Some 23) (VFloat 0),
     18 := ProgPair (VStr ''smile'') (Some 11) (Some 26) (VFloat 1),
     19 := ProgPair (VStr ''Rest'') (Some 12) (Some 23) (VFloat 0),
     20 := ProgPair (VStr ''blink'') (Some 12) (Some 27) (VFloat 1),
     21 := ProgPair (VStr ''Rest'') (Some 13) (Some 23) (VFloat 0),
     22 := ProgPair (VStr ''jawOpen_smile_blink'') (Some 13) (Some 28) (VFloat 1),
     23 := Shape (VStr ''Rest'') True,
     24 := Shape (VStr ''jawOpen_50'') False,
     25 := Shape (VStr ''jawOpen'') False,
     26 := Shape (VStr ''smile'') False,
     27 := Shape (VStr ''blink'') False,
     28 := Shape (VStr ''jawOpen_smile_blink'') False,
     30 := Falloff (VStr ''left''),
     31 := Falloff (VStr ''right''),
     32 := Falloff (VStr ''full''),
     40 := Group (VStr ''eyes'') (Some 0) [5] CSlider,
     50 := Slider (VStr ''loose'') None None True (VFloat 0))"

definition rigModel :: SimplexModel where
  "rigModel = \<lparr>model_simplex = Some 0\<rparr>"

text \<open>A block that renames an item and then raises.\<close>

definition failing_block :: "ref \<Rightarrow> pyval \<Rightarrow> block" where
  "failing_block r a w = (setattr (set_name a) (Some r) w, Some (Raised 1))"

definition world0 :: world where
  "world0 = \<lparr>store = rig, emitted = []\<rparr>"

text \<open>
  Filter proxies over the example rig. Their source hands out the tree model's own
  indices, and the framework's base verdict accepts every row.
\<close>

definition rigFilter :: SimplexFilterModel where
  "rigFilter = \<lparr>p_filterString = [], p_filterReg = [], isolateList = [],
     source_index = index rigModel rig, source_itemFromIndex = itemFromIndex,
     treeModel = rigModel, base_filterAcceptsRow = (\<lambda>_ _. True)\<rparr>"

definition jawFilter :: SimplexFilterModel where
  "jawFilter = (fst (set_filterString rigFilter ''jaw''))
     \<lparr>isolateList := [VStr ''smile'', VStr ''jawOpen_50'']\<rparr>"

definition rigComboFilter :: ComboFilterModel where
  "rigComboFilter = \<lparr>p_filterString = [], p_filterReg = [], isolateList = [],
     source_index = index rigModel rig, source_itemFromIndex = itemFromIndex,
     treeModel = rigModel, base_filterAcceptsRow = (\<lambda>_ _. True),
     requires = [3, 50], filterRequiresAll = True, filterRequiresAny = True,
     filterRequiresOnly = False, filterShapes = True\<rparr>"

text \<open>A depth table for the classes of the example rig.\<close>

definition rigDepth :: "cls \<Rightarrow> int" where
  "rigDepth c =
     (case c of
        CSimplex \<Rightarrow> 0 | CGroup \<Rightarrow> 1 | CSlider \<Rightarrow> 2 | CCombo \<Rightarrow> 2 | CTraversal \<Rightarrow> 2
      | CComboPair \<Rightarrow> 3 | CTravPair \<Rightarrow> 3 | CProgression \<Rightarrow> 3 | CProgPair \<Rightarrow> 4
      | CShape \<Rightarrow> 5 | CFalloff \<Rightarrow> 1 | COther \<Rightarrow> 0)"

text \<open>The falloff model of the example rig with nothing selected yet.\<close>

definition rigFalloffs :: FalloffModel where
  "rigFalloffs = \<lparr>fm_simplex = Some 0, sliders = [], p_checks = Map.empty, line = []\<rparr>"

section \<open>Basic facts\<close>

lemma ebind_simps [simp]:
  "ebind (Inl e) f = Inl e"
  "ebind (Inr v) f = f v"
  by (simp_all add: ebind_def)

lemma isinstance_simps [simp]:
  "isinstance h None c = False"
  "isinstance h (Some r) c = (classOf (h r) = c)"
  by (simp_all add: isinstance_def)

lemma getattr_simps [simp]:
  "getattr has sel h None = Inl AttributeError"
  "getattr has sel h (Some r) = (if has (h r) then Inr (sel (h r)) else Inl AttributeError)"
  by (simp_all add: getattr_def)

lemma py_getitem_nth:
  "0 \<le> i \<Longrightarrow> i < int (length xs) \<Longrightarrow> py_getitem xs i = Inr (xs ! nat i)"
  by (simp add: py_getitem_def py_len_def)

lemma createIndex_simps [simp]:
  "idx_row (createIndex r c p) = r"
  "idx_column (createIndex r c p) = c"
  "internalPointer (createIndex r c p) = p"
  "itemFromIndex (createIndex r c p) = p"
  "isValid (createIndex r c p) \<longleftrightarrow> 0 \<le> r \<and> 0 \<le> c"
  by (simp_all add: createIndex_def internalPointer_def itemFromIndex_def isValid_def)

lemma QModelIndex_simps [simp]:
  "internalPointer QModelIndex = None"
  "itemFromIndex QModelIndex = None"
  "isValid QModelIndex \<longleftrightarrow> False"
  by (simp_all add: QModelIndex_def internalPointer_def itemFromIndex_def isValid_def)

lemma classOf_Combo: "classOf x = CCombo \<Longrightarrow> is_Combo x"
  by (cases x) simp_all

section \<open>Evaluating the example rig\<close>

lemma rig_at:
  "rig 0 = Simplex (VStr ''rig'') [1, 40] [2] [] [30, 31, 32]"
  "rig 1 = Group (VStr ''mouth'') (Some 0) [3, 4] CSlider"
  "rig (Suc 0) = Group (VStr ''mouth'') (Some 0) [3, 4] CSlider"
  "rig 2 = Group (VStr ''combos'') (Some 0) [6] CCombo"
  "rig 3 = Slider (VStr ''jawOpen'') (Some 1) (Some 10) True (VFloat 0)"
  "rig 4 = Slider (VStr ''smile'') (Some 1) (Some 11) True (VFloat 0)"
  "rig 5 = Slider (VStr ''blink'') (Some 40) (Some 12) True (VFloat 0)"
  "rig 6 = Combo (VStr ''jawOpen_smile_blink'') (Some 2) [7, 8, 9] (Some 13) True"
  "rig 7 = ComboPair (VStr ''jawOpen'') (Some 3) (Some 6) (VFloat 1)"
  "rig 8 = ComboPair (VStr ''smile'') (Some 4) (Some 6) (VFloat 1)"
  "rig 9 = ComboPair (VStr ''blink'') (Some 5) (Some 6) (VFloat 1)"
  "rig 10 = Progression (VStr ''jawOpen'') (Some 3) [14, 15, 16] [30, 32]"
  "rig 11 = Progression (VStr ''smile'') (Some 4) [17, 18] [32]"
  "rig 12 = Progression (VStr ''blink'') (Some 5) [19, 20] [30, 32]"
  "rig 13 = Progression (VStr ''jawOpen_smile_blink'') (Some 6) [21, 22] []"
  "rig 14 = ProgPair (VStr ''Rest'') (Some 10) (Some 23) (VFloat 0)"
  "rig 15 = ProgPair (VStr ''jawOpen_50'') (Some 10) (Some 24) (VFloat (1/2))"
  "rig 16 = ProgPair (VStr ''jawOpen'') (Some 10) (Some 25) (VFloat 1)"
  "rig 17 = ProgPair (VStr ''Rest'') (Some 11) (Some 23) (VFloat 0)"
  "rig 18 = ProgPair (VStr ''smile'') (Some 11) (Some 26) (VFloat 1)"
  "rig 19 = ProgPair (VStr ''Rest'') (Some 12) (Some 23) (VFloat 0)"
  "rig 20 = ProgPair (VStr ''blink'') (Some 12) (Some 27) (VFloat 1)"
  "rig 21 = ProgPair (VStr ''Rest'') (Some 13) (Some 23) (VFloat 0)"
  "rig 22 = ProgPair (VStr ''jawOpen_smile_blink'') (Some 13) (Some 28) (VFloat 1)"
  "rig 23 = Shape (VStr ''Rest'') True"
  "rig 30 = Falloff (VStr ''left'')"
  "rig 31 = Falloff (VStr ''right'')"
  "rig 32 = Falloff (VStr ''full'')"
  "rig 40 = Group (VStr ''eyes'') (Some 0) [5] CSlider"
  "rig 50 = Slider (VStr ''loose'') None None True (VFloat 0)"
  by (simp_all add: rig_def)

lemmas nav_defs = getChildItem_def getItemRow_def getParentItem_def getItemRowCount_def
  getItemAppendRow_def catch_IndexError_def catch_Value_Attribute_def row_in_group_def
  py_getitem_def py_len_def
  get_sliderGroups_def get_comboGroups_def get_traversalGroups_def get_simplex_def
  get_items_def get_group_def get_prog_def get_pairs_def get_progressCtrl_def
  get_multiplierCtrl_def get_combo_def get_slider_def get_traversal_def get_usageIndex_def
  get_controller_def

section \<open>Parent, child and row of the progression under a combo\<close>

text \<open>
  C1. Parent and child lookups are meant to be mutual inverses. On the example rig the
  combo \<open>6\<close> has three pairs and four rows; its child at row \<open>3\<close> is its progression
  \<open>13\<close>, whose parent is the combo again, but \<^verbatim>\<open>getItemRow\<close> answers with the length of
  the progression's own pair list, \<open>2\<close>, and the combo's child at row \<open>2\<close> is the combo pair
  \<open>9\<close>, not the progression.
\<close>

theorem combo_progression_row:
  "getItemRowCount rig (Some 6) = Inr 4
   \<and> getChildItem rigModel rig (Some 6) 3 = Inr (Some 13)
   \<and> getParentItem rig (Some 13) = Inr (Some 6)
   \<and> getItemRow rig (Some 13) = Inr (Some 2)
   \<and> getChildItem rigModel rig (Some 6) 2 = Inr (Some 9)"
  by (simp add: nav_defs rig_at)

section \<open>Children of a combo\<close>

text \<open>
  C2. For a Combo with \<open>N\<close> weighted pairs: its child count is \<open>N + 1\<close>, its child at
  row \<open>N\<close> is its Progression, its children at rows \<open>0 .. N - 1\<close> are its pairs in list
  order, and the append row used when a new child is inserted is \<open>N\<close>, the row just
  before the trailing Progression slot.
\<close>

theorem combo_children:
  assumes "classOf (h c) = CCombo"
  shows "getItemRowCount h (Some c) = Inr (int (length (pairs (h c))) + 1)
       \<and> getChildItem self h (Some c) (int (length (pairs (h c)))) = Inr (prog (h c))
       \<and> (\<forall>i < length (pairs (h c)).
             getChildItem self h (Some c) (int i) = Inr (Some (pairs (h c) ! i)))
       \<and> getItemAppendRow h (Some c) = Inr (int (length (pairs (h c))))"
proof -
  from assms have C: "is_Combo (h c)" by (rule classOf_Combo)
  have P: "get_pairs h (Some c) = Inr (pairs (h c))"
    using C by (simp add: get_pairs_def)
  have G: "get_prog h (Some c) = Inr (prog (h c))"
    using C by (simp add: get_prog_def)
  have 1: "getItemRowCount h (Some c) = Inr (int (length (pairs (h c))) + 1)"
    using assms P by (simp add: getItemRowCount_def py_len_def)
  have 2: "getChildItem self h (Some c) (int (length (pairs (h c)))) = Inr (prog (h c))"
    using assms P G by (simp add: getChildItem_def py_len_def catch_IndexError_def)
  have 3: "getChildItem self h (Some c) (int i) = Inr (Some (pairs (h c) ! i))"
    if "i < length (pairs (h c))" for i
    using assms P that
    by (simp add: getChildItem_def py_len_def catch_IndexError_def py_getitem_def)
  have 4: "getItemAppendRow h (Some c) = Inr (int (length (pairs (h c))))"
    using assms P by (simp add: getItemAppendRow_def py_len_def)
  from 1 2 3 4 show ?thesis by simp
qed

theorem combo_children_witness:
  "classOf (rig 6) = CCombo
   \<and> getItemRowCount rig (Some 6) = Inr 4
   \<and> getChildItem rigModel rig (Some 6) 3 = Inr (Some 13)
   \<and> getChildItem rigModel rig (Some 6) 0 = Inr (Some 7)
   \<and> getChildItem rigModel rig (Some 6) 1 = Inr (Some 8)
   \<and> getChildItem rigModel rig (Some 6) 2 = Inr (Some 9)
   \<and> getItemAppendRow rig (Some 6) = Inr 3"
proof -
  have c: "classOf (rig 6) = CCombo" by (simp add: rig_at)
  from combo_children [of rig 6 rigModel] c show ?thesis
    by (simp add: rig_at numeral_3_eq_3 All_less_Suc)
qed

section \<open>The brackets\<close>

text \<open>
  C3. When the parent of an insert bracket has no valid index, or when the moved item or
  the destination parent of a move bracket has none, the bracket is the caller's block
  and nothing else: the block runs on the unchanged world, and what the bracket returns
  (the world, with its record of notifications, and the exception) is what the block
  returned, so the bracket itself calls neither the begin nor the end notification.
\<close>

theorem invalid_index_passthrough:
  "(indexFromItem getRow (store w) par 0 = Inr parIdx \<and> \<not> isValid parIdx
      \<longrightarrow> insertItemManager getRow getAppendRow w par r body = body w)
   \<and> (indexFromItem getRow (store w) item 0 = Inr itemIdx
        \<and> indexFromItem getRow (store w) destPar 0 = Inr destParIdx
        \<and> (\<not> isValid itemIdx \<or> \<not> isValid destParIdx)
      \<longrightarrow> moveItemManager getRow getAppendRow parentOf w item destPar destRow body = body w)"
  by (auto simp: insertItemManager_def moveItemManager_def)

lemma rig_loose_index: "indexFromItem getItemRow rig (Some 50) 0 = Inr QModelIndex"
  by (simp add: indexFromItem_def nav_defs rig_at)

lemma rig_combo_index: "indexFromItem getItemRow rig (Some 6) 0 = Inr (createIndex 0 0 (Some 6))"
  by (simp add: indexFromItem_def nav_defs rig_at)

lemma QModelIndex_invalid: "\<not> isValid QModelIndex"
  by (simp add: isValid_def QModelIndex_def)

theorem invalid_index_passthrough_witness:
  "indexFromItem getItemRow (store world0) (Some 50) 0 = Inr QModelIndex
   \<and> \<not> isValid QModelIndex
   \<and> insertItemManager getItemRow getItemAppendRow world0 (Some 50) (-1) (failing_block 6 (VStr ''x''))
       = (setattr (set_name (VStr ''x'')) (Some 6) world0, Some (Raised 1))
   \<and> indexFromItem getItemRow (store world0) (Some 6) 0 = Inr (createIndex 0 0 (Some 6))
   \<and> moveItemManager getItemRow getItemAppendRow parent world0 (Some 6) (Some 50) (-1)
         (failing_block 6 (VStr ''x''))
       = (setattr (set_name (VStr ''x'')) (Some 6) world0, Some (Raised 1))"
  using invalid_index_passthrough [where getRow = getItemRow and w = world0 and par = "Some 50"
      and parIdx = QModelIndex and getAppendRow = getItemAppendRow and r = "-1"
      and body = "failing_block 6 (VStr ''x'')" and item = "Some 6"
      and itemIdx = "createIndex 0 0 (Some 6)" and destPar = "Some 50"
      and destParIdx = QModelIndex and parentOf = parent and destRow = "-1"]
    rig_loose_index rig_combo_index QModelIndex_invalid
  by (simp add: world0_def failing_block_def)

text \<open>
  C4. In each of the four brackets, once the begin notification has been made (for
  insert, remove and move: the indices are valid and the rows were computed; for reset:
  always), the block runs on the world that records the begin, the matching end
  notification is appended after everything the block did, whether the block returned
  or raised, and the bracket passes on the exception of the block unchanged.
\<close>

theorem end_signal_always_fires:
  "(indexFromItem getRow (store w) par 0 = Inr parIdx \<and> isValid parIdx
      \<and> (if r = -1 then getAppendRow (store w) par else Inr r) = Inr r'
      \<and> body (emit (BeginInsertRows parIdx r' r') w) = (w1, exc)
    \<longrightarrow> insertItemManager getRow getAppendRow w par r body = (emit EndInsertRows w1, exc)
        \<and> emitted (emit EndInsertRows w1) = emitted w1 @ [EndInsertRows])
   \<and> (indexFromItem getRow (store w) item 0 = Inr idx \<and> isValid idx
      \<and> parentOf (store w) idx = Inr srcPar
      \<and> body (emit (BeginRemoveRows srcPar (idx_row idx) (idx_row idx)) w) = (w2, exc2)
    \<longrightarrow> removeItemManager getRow parentOf w item body = (emit EndRemoveRows w2, exc2)
        \<and> emitted (emit EndRemoveRows w2) = emitted w2 @ [EndRemoveRows])
   \<and> (indexFromItem getRow (store w) item 0 = Inr idx \<and> isValid idx
      \<and> indexFromItem getRow (store w) destPar 0 = Inr destIdx \<and> isValid destIdx
      \<and> parentOf (store w) idx = Inr srcPar
      \<and> (if destRow = -1 then getAppendRow (store w) destPar else Inr destRow) = Inr d
      \<and> body (emit (BeginMoveRows srcPar (idx_row idx) (idx_row idx) destIdx d) w) = (w3, exc3)
    \<longrightarrow> moveItemManager getRow getAppendRow parentOf w item destPar destRow body
          = (emit EndMoveRows w3, exc3)
        \<and> emitted (emit EndMoveRows w3) = emitted w3 @ [EndMoveRows])
   \<and> (body (emit BeginResetModel w) = (w4, exc4)
    \<longrightarrow> resetModelManager w body = (emit EndResetModel w4, exc4)
        \<and> emitted (emit EndResetModel w4) = emitted w4 @ [EndResetModel])"
  by (auto simp: insertItemManager_def removeItemManager_def moveItemManager_def
      resetModelManager_def emit_def)

lemma rig_combo_parent: "parent rig (createIndex 0 0 (Some 6)) = Inr (createIndex 2 0 (Some 2))"
  by (simp add: parent_def isValid_def createIndex_def internalPointer_def nav_defs rig_at)

lemma rig_group_index: "indexFromItem getItemRow rig (Some 2) 0 = Inr (createIndex 2 0 (Some 2))"
  by (simp add: indexFromItem_def nav_defs rig_at)

lemma createIndex_valid: "0 \<le> r \<Longrightarrow> 0 \<le> c \<Longrightarrow> isValid (createIndex r c p)"
  by (simp add: isValid_def createIndex_def)

theorem end_signal_always_fires_witness:
  "isValid (createIndex 0 0 (Some 6)) \<and> isValid (createIndex 2 0 (Some 2))
   \<and> insertItemManager getItemRow getItemAppendRow world0 (Some 6) (-1) (failing_block 6 (VStr ''x''))
      = (\<lparr>store = rig(6 := Combo (VStr ''x'') (Some 2) [7, 8, 9] (Some 13) True),
           emitted = [BeginInsertRows (createIndex 0 0 (Some 6)) 3 3, EndInsertRows]\<rparr>,
         Some (Raised 1))
   \<and> removeItemManager getItemRow parent world0 (Some 6) (failing_block 6 (VStr ''x''))
      = (\<lparr>store = rig(6 := Combo (VStr ''x'') (Some 2) [7, 8, 9] (Some 13) True),
           emitted = [BeginRemoveRows (createIndex 2 0 (Some 2)) 0 0, EndRemoveRows]\<rparr>,
         Some (Raised 1))
   \<and> moveItemManager getItemRow getItemAppendRow parent world0 (Some 6) (Some 2) (-1)
        (failing_block 6 (VStr ''x''))
      = (\<lparr>store = rig(6 := Combo (VStr ''x'') (Some 2) [7, 8, 9] (Some 13) True),
           emitted = [BeginMoveRows (createIndex 2 0 (Some 2)) 0 0 (createIndex 2 0 (Some 2)) 1,
                      EndMoveRows]\<rparr>,
         Some (Raised 1))
   \<and> resetModelManager world0 (failing_block 6 (VStr ''x''))
      = (\<lparr>store = rig(6 := Combo (VStr ''x'') (Some 2) [7, 8, 9] (Some 13) True),
           emitted = [BeginResetModel, EndResetModel]\<rparr>,
         Some (Raised 1))"
proof -
  have a: "getItemAppendRow rig (Some 6) = Inr 3" "getItemAppendRow rig (Some 2) = Inr 1"
    by (simp_all add: nav_defs rig_at)
  have b: "failing_block 6 (VStr ''x'') \<lparr>store = rig, emitted = es\<rparr>
      = (\<lparr>store = rig(6 := Combo (VStr ''x'') (Some 2) [7, 8, 9] (Some 13) True), emitted = es\<rparr>,
         Some (Raised 1))" for es
    by (simp add: failing_block_def setattr_def rig_at)
  show ?thesis
    using end_signal_always_fires [where getRow = getItemRow and w = world0 and par = "Some 6"
      and parIdx = "createIndex 0 0 (Some 6)" and getAppendRow = getItemAppendRow and r = "-1"
      and r' = 3 and body = "failing_block 6 (VStr ''x'')" and item = "Some 6"
      and idx = "createIndex 0 0 (Some 6)" and destPar = "Some 2"
      and destIdx = "createIndex 2 0 (Some 2)" and srcPar = "createIndex 2 0 (Some 2)"
      and parentOf = parent and destRow = "-1" and d = 1
      and ?w1.0 = "\<lparr>store = rig(6 := Combo (VStr ''x'') (Some 2) [7, 8, 9] (Some 13) True),
           emitted = [BeginInsertRows (createIndex 0 0 (Some 6)) 3 3]\<rparr>"
      and exc = "Some (Raised 1)"
      and ?w2.0 = "\<lparr>store = rig(6 := Combo (VStr ''x'') (Some 2) [7, 8, 9] (Some 13) True),
           emitted = [BeginRemoveRows (createIndex 2 0 (Some 2)) 0 0]\<rparr>"
      and ?exc2.0 = "Some (Raised 1)"
      and ?w3.0 = "\<lparr>store = rig(6 := Combo (VStr ''x'') (Some 2) [7, 8, 9] (Some 13) True),
           emitted = [BeginMoveRows (createIndex 2 0 (Some 2)) 0 0 (createIndex 2 0 (Some 2)) 1]\<rparr>"
      and ?exc3.0 = "Some (Raised 1)"
      and ?w4.0 = "\<lparr>store = rig(6 := Combo (VStr ''x'') (Some 2) [7, 8, 9] (Some 13) True),
           emitted = [BeginResetModel]\<rparr>"
      and ?exc4.0 = "Some (Raised 1)"]
      rig_combo_index rig_group_index rig_combo_parent a b
    by (simp add: world0_def emit_def isValid_def createIndex_def)
qed

section \<open>Editing cells\<close>

lemma val_set_val:
  "classOf x \<in> {CSlider, CComboPair, CTravPair, CProgPair} \<Longrightarrow> val (set_val a x) = a"
  by (cases x) simp_all

lemma isinstance_of_simps [simp]:
  "isinstance_of h None cs = False"
  "isinstance_of h (Some r) cs = (classOf (h r) \<in> set cs)"
  by (induction cs) (simp_all add: isinstance_of_def)

text \<open>
  C10. An edit with the edit role in column 1 of a Slider, ComboPair or TravPair, or in
  column 2 of a ProgPair, stores the new value in the item's \<^verbatim>\<open>value\<close> attribute, touches
  no other object, emits no \<^verbatim>\<open>dataChanged\<close> and returns \<^verbatim>\<open>False\<close>. The call returns \<^verbatim>\<open>True\<close>
  exactly for a valid index in column 0 with either the edit role (a name edit, on a
  Slider, Combo, Traversal or ProgPair) or the check-state role on a Slider, Combo or
  Traversal.
\<close>

theorem setData_numeric_edit:
  "(isValid i \<and> internalPointer i = Some r
      \<and> (idx_column i = 1 \<and> classOf (store w r) \<in> {CSlider, CComboPair, CTravPair}
          \<or> idx_column i = 2 \<and> classOf (store w r) = CProgPair)
    \<longrightarrow> snd (setData w i v Qt_EditRole) = False
        \<and> emitted (fst (setData w i v Qt_EditRole)) = emitted w
        \<and> val (store (fst (setData w i v Qt_EditRole)) r) = v
        \<and> (\<forall>r'. r' \<noteq> r \<longrightarrow> store (fst (setData w i v Qt_EditRole)) r' = store w r'))
   \<and> (snd (setData w i v role) \<longleftrightarrow>
         isValid i \<and> idx_column i = 0
         \<and> (role = Qt_EditRole
               \<and> isinstance_of (store w) (internalPointer i) [CSlider, CCombo, CTraversal, CProgPair]
             \<or> role = Qt_CheckStateRole
               \<and> isinstance_of (store w) (internalPointer i) [CSlider, CCombo, CTraversal]))"
proof -
  have A: "snd (setData w i v Qt_EditRole) = False
        \<and> emitted (fst (setData w i v Qt_EditRole)) = emitted w
        \<and> val (store (fst (setData w i v Qt_EditRole)) r) = v
        \<and> (\<forall>r'. r' \<noteq> r \<longrightarrow> store (fst (setData w i v Qt_EditRole)) r' = store w r')"
    if "isValid i" "internalPointer i = Some r"
      "idx_column i = 1 \<and> classOf (store w r) \<in> {CSlider, CComboPair, CTravPair}
          \<or> idx_column i = 2 \<and> classOf (store w r) = CProgPair"
    using that by (auto simp: setData_def setattr_def val_set_val Let_def)
  have B: "snd (setData w i v role) \<longleftrightarrow>
         isValid i \<and> idx_column i = 0
         \<and> (role = Qt_EditRole
               \<and> isinstance_of (store w) (internalPointer i) [CSlider, CCombo, CTraversal, CProgPair]
             \<or> role = Qt_CheckStateRole
               \<and> isinstance_of (store w) (internalPointer i) [CSlider, CCombo, CTraversal])"
    by (cases "internalPointer i") (auto simp: setData_def Let_def split: if_splits)
  from A B show ?thesis by blast
qed

theorem setData_numeric_edit_witness:
  "isValid (createIndex 0 1 (Some 3)) \<and> internalPointer (createIndex 0 1 (Some 3)) = Some 3
   \<and> idx_column (createIndex 0 1 (Some 3)) = 1 \<and> classOf (store world0 3) = CSlider
   \<and> snd (setData world0 (createIndex 0 1 (Some 3)) (VFloat (3/4)) Qt_EditRole) = False
   \<and> emitted (fst (setData world0 (createIndex 0 1 (Some 3)) (VFloat (3/4)) Qt_EditRole)) = []
   \<and> val (store (fst (setData world0 (createIndex 0 1 (Some 3)) (VFloat (3/4)) Qt_EditRole)) 3)
       = VFloat (3/4)
   \<and> store (fst (setData world0 (createIndex 0 1 (Some 3)) (VFloat (3/4)) Qt_EditRole)) 4
       = rig 4"
proof -
  have v: "isValid (createIndex 0 1 (Some 3))"
    by (simp add: isValid_def createIndex_def)
  have p: "internalPointer (createIndex 0 1 (Some 3)) = Some 3"
    "idx_column (createIndex 0 1 (Some 3)) = 1"
    by (simp_all add: internalPointer_def createIndex_def)
  have c: "classOf (store world0 3) = CSlider" by (simp add: world0_def rig_at)
  have e: "emitted world0 = []" "store world0 4 = rig 4" by (simp_all add: world0_def)
  show ?thesis
    using setData_numeric_edit [of "createIndex 0 1 (Some 3)" 3 world0 "VFloat (3/4)" Qt_EditRole]
      v p c e
    by simp
qed

section \<open>The name filter\<close>

lemmas re_defs = re_compile_def chars_def repeat_bounds_def outside_fragment_def
  compile_token_def set_filterString_def py_split_def is_space_def

lemma sdr_regex:
  "re_compile ''s.*?d.*?r'' = Inr [One (Lit CHR ''s''), Repeat True 0 None AnyChar,
      One (Lit CHR ''d''), Repeat True 0 None AnyChar, One (Lit CHR ''r'')]"
  by (simp add: re_defs)

lemma sre_parse_plain:
  "plain_char c \<Longrightarrow> sre_parse (c # rest) acc = sre_parse rest (acc @ [One (Lit c)])"
  by (simp add: plain_char_def)

lemma sre_parse_lazy_span:
  "sre_parse (CHR ''.'' # CHR ''*'' # CHR ''?'' # rest) acc
     = sre_parse rest (acc @ [Repeat True 0 None AnyChar])"
  by (simp add: repeat_bounds_def outside_fragment_def)

lemma sre_parse_join:
  assumes "tok \<noteq> []" and "\<forall>c \<in> set tok. plain_char c"
  shows "sre_parse (py_join ''.*?'' (chars tok)) acc = Inr (acc @ fuzzy_regex tok)"
  using assms
proof (induction tok arbitrary: acc rule: fuzzy_regex.induct)
  case 1
  then show ?case by simp
next
  case (2 c)
  then have "plain_char c" by simp
  then show ?case
    by (simp add: chars_def sre_parse_plain del: sre_parse.simps(2))
next
  case (3 c d cs)
  have j: "py_join ''.*?'' (chars (c # d # cs))
             = c # CHR ''.'' # CHR ''*'' # CHR ''?'' # py_join ''.*?'' (chars (d # cs))"
    by (simp add: chars_def)
  have "sre_parse (py_join ''.*?'' (chars (c # d # cs))) acc
          = sre_parse (py_join ''.*?'' (chars (d # cs)))
              ((acc @ [One (Lit c)]) @ [Repeat True 0 None AnyChar])"
  proof -
    from "3.prems"(2) have "plain_char c" by simp
    then show ?thesis
      unfolding j by (simp add: sre_parse_lazy_span sre_parse_plain del: sre_parse.simps(2))
  qed
  also have "\<dots> = Inr (((acc @ [One (Lit c)]) @ [Repeat True 0 None AnyChar])
                        @ fuzzy_regex (d # cs))"
    using "3.prems"(2) by (intro "3.IH") (simp_all del: sre_parse.simps)
  finally show ?case by simp
qed

lemma compile_token_plain:
  assumes "plain_token tok"
  shows "compile_token tok = Inr (fuzzy_regex tok)"
proof -
  from assms have ne: "tok \<noteq> []" and pl: "\<forall>c \<in> set tok. plain_char c"
    by (simp_all add: plain_token_def list_all_iff)
  from ne obtain c cs where t: "tok = c # cs" by (cases tok) simp_all
  with pl have "plain_char c" by simp
  then have "repeat_bounds c = None" by (simp add: plain_char_def)
  then have "c \<noteq> CHR ''*''" by (rule contrapos_pp) (simp add: repeat_bounds_def)
  with t have "compile_token tok = re_compile (py_join ''.*?'' (chars tok))"
    by (simp add: compile_token_def)
  also have "\<dots> = Inr (fuzzy_regex tok)"
    using sre_parse_join [OF ne pl, of "[]"] by (simp add: re_compile_def del: sre_parse.simps)
  finally show ?thesis .
qed

lemma compile_tokens_plain:
  "list_all plain_token toks \<Longrightarrow>
     compile_tokens toks regs = (regs @ map fuzzy_regex toks, None)"
  by (induction toks arbitrary: regs) (simp_all add: compile_token_plain)

lemma set_filterString_plain:
  assumes "list_all plain_token (py_split v)"
  shows "set_filterString self v
           = (self\<lparr>p_filterString := py_split v,
                   p_filterReg := map fuzzy_regex (py_split v)\<rparr>, None)"
  using compile_tokens_plain [OF assms, of "[]"] by (simp add: set_filterString_def)

text \<open>
  C6, as the code has it. Setting the filter string splits it at whitespace and compiles
  each token that does not start with \<^verbatim>\<open>*\<close> into the regex obtained by joining the
  token's characters with the lazy any-character span \<^verbatim>\<open>.*?\<close>; when the tokens consist of
  plain characters, each compiles to its fuzzy regex. For the token \<^verbatim>\<open>sdr\<close> this is
  \<^verbatim>\<open>s.*?d.*?r\<close>, which matches the name \<^verbatim>\<open>SlideR\<close> without regard to case (and does not
  match \<^verbatim>\<open>Slide\<close>).
\<close>

theorem fuzzy_token_sdr:
  "(list_all plain_token (py_split v)
      \<longrightarrow> set_filterString self v
            = (self\<lparr>p_filterString := py_split v,
                    p_filterReg := map fuzzy_regex (py_split v)\<rparr>, None))
   \<and> py_join ''.*?'' (chars ''sdr'') = ''s.*?d.*?r''
   \<and> set_filterString self ''sdr''
       = (self\<lparr>p_filterString := [''sdr''],
               p_filterReg := [[One (Lit CHR ''s''), Repeat True 0 None AnyChar,
                                One (Lit CHR ''d''), Repeat True 0 None AnyChar,
                                One (Lit CHR ''r'')]]\<rparr>, None)
   \<and> matchFilterString (fst (set_filterString self ''sdr'')) (VStr ''SlideR'') = Inr True
   \<and> matchFilterString (fst (set_filterString self ''sdr'')) (VStr ''Slide'') = Inr False"
proof -
  have 0: "list_all plain_token (py_split v)
      \<longrightarrow> set_filterString self v
            = (self\<lparr>p_filterString := py_split v,
                    p_filterReg := map fuzzy_regex (py_split v)\<rparr>, None)"
    by (simp add: set_filterString_plain)
  have 1: "set_filterString self ''sdr''
       = (self\<lparr>p_filterString := [''sdr''],
               p_filterReg := [[One (Lit CHR ''s''), Repeat True 0 None AnyChar,
                                One (Lit CHR ''d''), Repeat True 0 None AnyChar,
                                One (Lit CHR ''r'')]]\<rparr>, None)"
    by (simp add: re_defs)
  have 2: "py_join ''.*?'' (chars ''sdr'') = ''s.*?d.*?r''"
    by (simp add: chars_def)
  have 3: "matchFilterString (fst (set_filterString self ''sdr'')) (VStr ''SlideR'') = Inr True"
    "matchFilterString (fst (set_filterString self ''sdr'')) (VStr ''Slide'') = Inr False"
    unfolding 1 by (simp_all add: matchFilterString_def lower_def)
  from 0 1 2 3 show ?thesis by blast
qed

theorem fuzzy_token_sdr_witness:
  "py_split ''sdr  jw'' = [''sdr'', ''jw'']
   \<and> list_all plain_token [''sdr'', ''jw'']
   \<and> set_filterString rigFilter ''sdr  jw''
       = (rigFilter\<lparr>p_filterString := [''sdr'', ''jw''],
            p_filterReg := [[One (Lit CHR ''s''), Repeat True 0 None AnyChar,
                             One (Lit CHR ''d''), Repeat True 0 None AnyChar,
                             One (Lit CHR ''r'')],
                            [One (Lit CHR ''j''), Repeat True 0 None AnyChar,
                             One (Lit CHR ''w'')]]\<rparr>, None)"
proof -
  have s: "py_split ''sdr  jw'' = [''sdr'', ''jw'']"
    by (simp add: py_split_def is_space_def)
  have p: "list_all plain_token [''sdr'', ''jw'']"
    by (simp add: plain_token_def plain_char_def repeat_bounds_def outside_fragment_def)
  from fuzzy_token_sdr [of "''sdr  jw''" rigFilter] s p show ?thesis
    by simp
qed

text \<open>
  The token \<^verbatim>\<open>sl*r\<close> does not start with \<^verbatim>\<open>*\<close>, so it is joined like any other token; the
  result \<^verbatim>\<open>s.*?l.*?*.*?r\<close> repeats a repeat and \<^verbatim>\<open>re.compile\<close> raises. The setter leaves
  with the exception, the token list set and no regex compiled, after which no name
  matches, \<^verbatim>\<open>slider\<close> included.
\<close>

theorem wildcard_inside_token_raises:
  "py_join ''.*?'' (chars ''sl*r'') = ''s.*?l.*?*.*?r''
   \<and> re_compile ''s.*?l.*?*.*?r'' = Inl (ReError ''multiple repeat'')
   \<and> set_filterString rigFilter ''sl*r''
       = (rigFilter\<lparr>p_filterString := [''sl*r''], p_filterReg := []\<rparr>,
          Some (ReError ''multiple repeat''))
   \<and> matchFilterString (fst (set_filterString rigFilter ''sl*r'')) (VStr ''slider'') = Inr False"
proof -
  have 1: "set_filterString rigFilter ''sl*r''
       = (rigFilter\<lparr>p_filterString := [''sl*r''], p_filterReg := []\<rparr>,
          Some (ReError ''multiple repeat''))"
    by (simp add: re_defs)
  show ?thesis
    unfolding 1 by (simp add: re_defs matchFilterString_def)
qed


lemma search_any_str:
  "search_any regs (VStr s) = Inr (\<exists>reg \<in> set regs. re_search reg s)"
  by (induction regs) auto

lemma matchFilterString_str:
  "matchFilterString self (VStr s)
     = Inr (p_filterString self = [] \<or> (\<exists>reg \<in> set (p_filterReg self). re_search reg s))"
  by (simp add: matchFilterString_def search_any_str)

text \<open>
  C5, as the code has it. A row whose item has a string name is passed on to the
  framework's base verdict when the name passes both tests: it matches one of the
  compiled tokens or there is no filter string, and it is in the isolate list or the
  isolate list is empty. When filter string and isolate list are both empty the name
  filter rejects no row. An item of a filtered class that has no rows of its own and
  whose name fails one of the two tests is rejected.
\<close>

theorem name_filter_accepts:
  assumes "source_index self sourceRow 0 sourceParent = Inr sourceIndex"
  shows "(get_name h (source_itemFromIndex self sourceIndex) = Inr (VStr s)
          \<and> (p_filterString self = [] \<or> (\<exists>reg \<in> set (p_filterReg self). re_search reg s))
          \<and> (isolateList self = [] \<or> py_in (VStr s) (isolateList self))
        \<longrightarrow> SimplexFilterModel_filterAcceptsRow self h sourceRow sourceParent
              = Some (Inr (base_filterAcceptsRow self sourceRow sourceParent)))
       \<and> (p_filterString self = [] \<and> isolateList self = []
        \<longrightarrow> SimplexFilterModel_filterAcceptsRow self h sourceRow sourceParent
              = Some (Inr (base_filterAcceptsRow self sourceRow sourceParent)))
       \<and> (isValid sourceIndex
          \<and> (filterString self \<noteq> [] \<or> isolateList self \<noteq> [])
          \<and> isinstance_of h (source_itemFromIndex self sourceIndex)
                [CProgPair, CSlider, CCombo, CComboPair, CProgression]
          \<and> get_name h (source_itemFromIndex self sourceIndex) = Inr (VStr s)
          \<and> \<not> ((p_filterString self = [] \<or> (\<exists>reg \<in> set (p_filterReg self). re_search reg s))
                \<and> (isolateList self = [] \<or> py_in (VStr s) (isolateList self)))
          \<and> getItemRowCount h (source_itemFromIndex self sourceIndex) = Inr 0
        \<longrightarrow> SimplexFilterModel_filterAcceptsRow self h sourceRow sourceParent = Some (Inr False))"
proof -
  let ?item = "source_itemFromIndex self sourceIndex"
  let ?base = "Some (Inr (base_filterAcceptsRow self sourceRow sourceParent))"
  have A: "SimplexFilterModel_filterAcceptsRow self h sourceRow sourceParent = ?base"
    if "get_name h ?item = Inr (VStr s)"
      "p_filterString self = [] \<or> (\<exists>reg \<in> set (p_filterReg self). re_search reg s)"
      "isolateList self = [] \<or> py_in (VStr s) (isolateList self)"
  proof -
    have "checkChildren self h ?item = Some (Inr True)"
      using that
      by (subst checkChildren.simps) (auto simp: matchFilterString_str matchIsolation_def)
    then show ?thesis
      using assms by (simp add: SimplexFilterModel_filterAcceptsRow_def)
  qed
  have B: "SimplexFilterModel_filterAcceptsRow self h sourceRow sourceParent = ?base"
    if "p_filterString self = []" "isolateList self = []"
    using that assms by (simp add: SimplexFilterModel_filterAcceptsRow_def filterString_def)
  have C: "SimplexFilterModel_filterAcceptsRow self h sourceRow sourceParent = Some (Inr False)"
    if "isValid sourceIndex" "filterString self \<noteq> [] \<or> isolateList self \<noteq> []"
       "isinstance_of h ?item [CProgPair, CSlider, CCombo, CComboPair, CProgression]"
       "get_name h ?item = Inr (VStr s)"
       "\<not> ((p_filterString self = [] \<or> (\<exists>reg \<in> set (p_filterReg self). re_search reg s))
                \<and> (isolateList self = [] \<or> py_in (VStr s) (isolateList self)))"
       "getItemRowCount h ?item = Inr 0"
  proof -
    have "checkChildren self h ?item = Some (Inr False)"
      using that(4,5,6)
      by (subst checkChildren.simps)
         (auto simp: matchFilterString_str matchIsolation_def xrange_def)
    then show ?thesis
      using assms that(1,2,3) by (simp add: SimplexFilterModel_filterAcceptsRow_def)
  qed
  from A B C show ?thesis by blast
qed

lemma jawFilter_eq:
  "jawFilter = rigFilter\<lparr>p_filterString := [''jaw''],
      p_filterReg := [[One (Lit CHR ''j''), Repeat True 0 None AnyChar,
                       One (Lit CHR ''a''), Repeat True 0 None AnyChar, One (Lit CHR ''w'')]],
      isolateList := [VStr ''smile'', VStr ''jawOpen_50'']\<rparr>"
  by (simp add: jawFilter_def re_defs)

lemma rig_index_jawOpen:
  "index rigModel rig 2 0 (createIndex 0 0 (Some 3)) = Inr (createIndex 2 0 (Some 16))"
  by (simp add: index_def nav_defs rig_at)

lemma rig_index_smile:
  "index rigModel rig 1 0 (createIndex 1 0 (Some 4)) = Inr (createIndex 1 0 (Some 18))"
  by (simp add: index_def nav_defs rig_at)

text \<open>
  With the filter \<^verbatim>\<open>jaw\<close> and the isolate list \<^verbatim>\<open>smile\<close>, \<^verbatim>\<open>jawOpen_50\<close>: the shape
  \<^verbatim>\<open>jawOpen\<close> matches the token and is rejected, and the shape \<^verbatim>\<open>smile\<close> is in the isolate
  list and is rejected, although the base verdict accepts every row.
\<close>

theorem name_filter_is_conjunction:
  "matchFilterString jawFilter (VStr ''jawOpen'') = Inr True
   \<and> get_name rig (Some 16) = Inr (VStr ''jawOpen'')
   \<and> source_index jawFilter 2 0 (createIndex 0 0 (Some 3)) = Inr (createIndex 2 0 (Some 16))
   \<and> base_filterAcceptsRow jawFilter 2 (createIndex 0 0 (Some 3))
   \<and> SimplexFilterModel_filterAcceptsRow jawFilter rig 2 (createIndex 0 0 (Some 3))
       = Some (Inr False)
   \<and> py_in (VStr ''smile'') (isolateList jawFilter)
   \<and> get_name rig (Some 18) = Inr (VStr ''smile'')
   \<and> source_index jawFilter 1 0 (createIndex 1 0 (Some 4)) = Inr (createIndex 1 0 (Some 18))
   \<and> SimplexFilterModel_filterAcceptsRow jawFilter rig 1 (createIndex 1 0 (Some 4))
       = Some (Inr False)"
proof -
  have m: "matchFilterString jawFilter (VStr ''jawOpen'') = Inr True"
    "matchFilterString jawFilter (VStr ''smile'') = Inr False"
    by (simp_all add: jawFilter_eq matchFilterString_def lower_def)
  have i: "py_in (VStr ''smile'') [VStr ''smile'', VStr ''jawOpen_50'']"
    "\<not> py_in (VStr ''jawOpen'') [VStr ''smile'', VStr ''jawOpen_50'']"
    by (simp_all add: py_in_def py_eq_def)
  have n: "get_name rig (Some 16) = Inr (VStr ''jawOpen'')"
    "get_name rig (Some 18) = Inr (VStr ''smile'')"
    by (simp_all add: get_name_def rig_at)
  have s: "source_index jawFilter = index rigModel rig"
    "source_itemFromIndex jawFilter = itemFromIndex"
    "treeModel jawFilter = rigModel" "base_filterAcceptsRow jawFilter = (\<lambda>_ _. True)"
    "filterString jawFilter = ''jaw''" "isolateList jawFilter = [VStr ''smile'', VStr ''jawOpen_50'']"
    by (simp_all add: jawFilter_eq rigFilter_def filterString_def)
  have c: "getItemRowCount rig (Some 16) = Inr 0" "getItemRowCount rig (Some 18) = Inr 0"
    by (simp_all add: getItemRowCount_def rig_at)
  have k16: "checkChildren jawFilter rig (Some 16) = Some (Inr False)"
    by (subst checkChildren.simps) (simp add: n m i c s matchIsolation_def xrange_def)
  have k18: "checkChildren jawFilter rig (Some 18) = Some (Inr False)"
    by (subst checkChildren.simps) (simp add: n m i c s matchIsolation_def xrange_def)
  have r1: "SimplexFilterModel_filterAcceptsRow jawFilter rig 2 (createIndex 0 0 (Some 3))
       = Some (Inr False)"
    by (simp add: SimplexFilterModel_filterAcceptsRow_def s rig_index_jawOpen k16
        rig_at isinstance_of_def)
  have r2: "SimplexFilterModel_filterAcceptsRow jawFilter rig 1 (createIndex 1 0 (Some 4))
       = Some (Inr False)"
    by (simp add: SimplexFilterModel_filterAcceptsRow_def s rig_index_smile k18
        rig_at isinstance_of_def)
  from m i n s r1 r2 show ?thesis
    by (simp add: rig_index_jawOpen rig_index_smile)
qed

lemma rig_index_jawOpen_50:
  "index rigModel rig 1 0 (createIndex 0 0 (Some 3)) = Inr (createIndex 1 0 (Some 15))"
  by (simp add: index_def nav_defs rig_at)

theorem name_filter_accepts_witness:
  "source_index jawFilter 1 0 (createIndex 0 0 (Some 3)) = Inr (createIndex 1 0 (Some 15))
   \<and> get_name rig (Some 15) = Inr (VStr ''jawOpen_50'')
   \<and> (\<exists>reg \<in> set (p_filterReg jawFilter). re_search reg ''jawOpen_50'')
   \<and> py_in (VStr ''jawOpen_50'') (isolateList jawFilter)
   \<and> SimplexFilterModel_filterAcceptsRow jawFilter rig 1 (createIndex 0 0 (Some 3))
       = Some (Inr True)
   \<and> p_filterString rigFilter = [] \<and> isolateList rigFilter = []
   \<and> SimplexFilterModel_filterAcceptsRow rigFilter rig 2 (createIndex 0 0 (Some 3))
       = Some (Inr True)
   \<and> source_index jawFilter 2 0 (createIndex 0 0 (Some 3)) = Inr (createIndex 2 0 (Some 16))
   \<and> get_name rig (Some 16) = Inr (VStr ''jawOpen'')
   \<and> \<not> py_in (VStr ''jawOpen'') (isolateList jawFilter)
   \<and> getItemRowCount rig (Some 16) = Inr 0
   \<and> SimplexFilterModel_filterAcceptsRow jawFilter rig 2 (createIndex 0 0 (Some 3))
       = Some (Inr False)"
proof -
  have s: "source_index jawFilter = index rigModel rig"
    "source_itemFromIndex jawFilter = itemFromIndex"
    "base_filterAcceptsRow jawFilter = (\<lambda>_ _. True)"
    "filterString jawFilter = ''jaw''" "p_filterString jawFilter = [''jaw'']"
    "isolateList jawFilter = [VStr ''smile'', VStr ''jawOpen_50'']"
    "p_filterReg jawFilter = [[One (Lit CHR ''j''), Repeat True 0 None AnyChar,
                       One (Lit CHR ''a''), Repeat True 0 None AnyChar, One (Lit CHR ''w'')]]"
    by (simp_all add: jawFilter_eq rigFilter_def filterString_def)
  have t: "source_index rigFilter = index rigModel rig"
    "base_filterAcceptsRow rigFilter = (\<lambda>_ _. True)"
    "p_filterString rigFilter = []" "isolateList rigFilter = []"
    by (simp_all add: rigFilter_def)
  have n: "get_name rig (Some 15) = Inr (VStr ''jawOpen_50'')"
    "get_name rig (Some 16) = Inr (VStr ''jawOpen'')"
    by (simp_all add: get_name_def rig_at)
  have m: "re_search [One (Lit CHR ''j''), Repeat True 0 None AnyChar,
                       One (Lit CHR ''a''), Repeat True 0 None AnyChar, One (Lit CHR ''w'')]
             ''jawOpen_50''"
    by (simp add: lower_def)
  have i: "py_in (VStr ''jawOpen_50'') [VStr ''smile'', VStr ''jawOpen_50'']"
    "\<not> py_in (VStr ''jawOpen'') [VStr ''smile'', VStr ''jawOpen_50'']"
    by (simp_all add: py_in_def py_eq_def)
  have c: "getItemRowCount rig (Some 16) = Inr 0"
    by (simp add: getItemRowCount_def rig_at)
  have k: "classOf (rig 16) = CProgPair" by (simp add: rig_at)
  show ?thesis
    using name_filter_accepts [of jawFilter 1 "createIndex 0 0 (Some 3)"
        "createIndex 1 0 (Some 15)" rig "''jawOpen_50''"]
      name_filter_accepts [of rigFilter 2 "createIndex 0 0 (Some 3)"
        "createIndex 2 0 (Some 16)" rig "''jawOpen''"]
      name_filter_accepts [of jawFilter 2 "createIndex 0 0 (Some 3)"
        "createIndex 2 0 (Some 16)" rig "''jawOpen''"]
    by (simp add: s t n m i c k rig_index_jawOpen rig_index_jawOpen_50)
qed

section \<open>The dependency filter\<close>

text \<open>
  C7, as the code has it. For a Combo row with a non-empty list of required sliders, the
  mode flags are tried in the order ALL, ANY, ONLY: the ALL test decides when ALL is
  set, whatever the other flags; otherwise the ANY test when ANY is set; otherwise the
  ONLY test when ONLY is set. A failed test rejects the row, a passed one hands the row
  to the name filter; no assertion is involved.
\<close>

theorem requires_mode_priority:
  assumes "source_index self sourceRow 0 sourceParent = Inr sourceIndex"
    and "isValid sourceIndex"
    and "source_itemFromIndex self sourceIndex = Some c"
    and "classOf (h c) = CCombo"
    and "requires self \<noteq> []"
    and "pair_sliders h (pairs (h c)) = Inr used"
  shows "ComboFilterModel_filterAcceptsRow self h sourceRow sourceParent =
     (if filterRequiresAll self then
        (if list_all (\<lambda>r. Some r \<in> set used) (requires self)
         then SimplexFilterModel_filterAcceptsRow self h sourceRow sourceParent
         else Some (Inr False))
      else if filterRequiresAny self then
        (if list_ex (\<lambda>r. Some r \<in> set used) (requires self)
         then SimplexFilterModel_filterAcceptsRow self h sourceRow sourceParent
         else Some (Inr False))
      else if filterRequiresOnly self then
        (if list_all (\<lambda>s. s \<in> Some ` set (requires self)) used
         then SimplexFilterModel_filterAcceptsRow self h sourceRow sourceParent
         else Some (Inr False))
      else SimplexFilterModel_filterAcceptsRow self h sourceRow sourceParent)"
proof -
  from assms(4) have C: "is_Combo (h c)" by (rule classOf_Combo)
  have hs: "hides_shape h (Some c) = Inr False"
    using assms(4) by (simp add: hides_shape_def)
  have P: "get_pairs h (Some c) = Inr (pairs (h c))"
    using C by (simp add: get_pairs_def)
  have fr: "fails_requires self h (Some c) =
     (if filterRequiresAll self then
        Inr (\<not> list_all (\<lambda>r. Some r \<in> set used) (requires self))
      else if filterRequiresAny self then
        Inr (\<not> list_ex (\<lambda>r. Some r \<in> set used) (requires self))
      else if filterRequiresOnly self then
        Inr (\<not> list_all (\<lambda>s. s \<in> Some ` set (requires self)) used)
      else Inr False)"
    using assms(4,5,6) P by (simp add: fails_requires_def)
  have body: "ComboFilterModel_filterAcceptsRow self h sourceRow sourceParent =
     (case fails_requires self h (Some c) of
        Inl e \<Rightarrow> Some (Inl e)
      | Inr True \<Rightarrow> Some (Inr False)
      | Inr False \<Rightarrow> SimplexFilterModel_filterAcceptsRow self h sourceRow sourceParent)"
    using assms(1,2,3) hs by (simp add: ComboFilterModel_filterAcceptsRow_def Let_def)
  show ?thesis
    unfolding body fr by simp
qed

lemma rig_index_combo:
  "index rigModel rig 0 0 (createIndex 2 0 (Some 2)) = Inr (createIndex 0 0 (Some 6))"
  by (simp add: index_def nav_defs rig_at)

lemma rig_combo_sliders: "pair_sliders rig [7, 8, 9] = Inr [Some 3, Some 4, Some 5]"
  by (simp add: get_slider_def rig_at)

lemma rigComboFilter_fields:
  "source_index rigComboFilter = index rigModel rig"
  "source_itemFromIndex rigComboFilter = itemFromIndex"
  "base_filterAcceptsRow rigComboFilter = (\<lambda>_ _. True)"
  "p_filterString rigComboFilter = []" "isolateList rigComboFilter = []"
  "requires rigComboFilter = [3, 50]"
  "filterRequiresAll rigComboFilter" "filterRequiresAny rigComboFilter"
  "\<not> filterRequiresOnly rigComboFilter" "filterShapes rigComboFilter"
  by (simp_all add: rigComboFilter_def)

lemma rigComboFilter_super:
  "SimplexFilterModel_filterAcceptsRow rigComboFilter rig 0 (createIndex 2 0 (Some 2))
     = Some (Inr True)"
  by (simp add: SimplexFilterModel_filterAcceptsRow_def rigComboFilter_fields rig_index_combo
      filterString_def)

text \<open>
  With ANY and ALL both set and the required sliders \<open>3\<close> and \<open>50\<close>, the combo of the
  sliders \<open>3\<close>, \<open>4\<close>, \<open>5\<close> passes the ANY test and the name filter, and is rejected: the
  ALL test decided.
\<close>

theorem all_overrides_any:
  "filterRequiresAny rigComboFilter \<and> filterRequiresAll rigComboFilter
   \<and> requires rigComboFilter = [3, 50]
   \<and> source_index rigComboFilter 0 0 (createIndex 2 0 (Some 2)) = Inr (createIndex 0 0 (Some 6))
   \<and> classOf (rig 6) = CCombo
   \<and> pair_sliders rig (pairs (rig 6)) = Inr [Some 3, Some 4, Some 5]
   \<and> list_ex (\<lambda>r. Some r \<in> set [Some 3, Some 4, Some 5]) (requires rigComboFilter)
   \<and> SimplexFilterModel_filterAcceptsRow rigComboFilter rig 0 (createIndex 2 0 (Some 2))
       = Some (Inr True)
   \<and> ComboFilterModel_filterAcceptsRow rigComboFilter rig 0 (createIndex 2 0 (Some 2))
       = Some (Inr False)"
proof -
  have hs: "hides_shape rig (Some 6) = Inr False"
    by (simp add: hides_shape_def rig_at)
  have fr: "fails_requires rigComboFilter rig (Some 6) = Inr True"
    by (simp add: fails_requires_def rigComboFilter_fields rig_at get_pairs_def
        rig_combo_sliders del: pair_sliders.simps)
  have r: "ComboFilterModel_filterAcceptsRow rigComboFilter rig 0 (createIndex 2 0 (Some 2))
       = Some (Inr False)"
    by (simp add: ComboFilterModel_filterAcceptsRow_def rigComboFilter_fields rig_index_combo
        hs fr Let_def)
  show ?thesis
    using r rigComboFilter_super
    by (simp add: rigComboFilter_fields rig_index_combo rig_at rig_combo_sliders
        del: pair_sliders.simps)
qed

theorem requires_mode_priority_witness:
  "source_index rigComboFilter 0 0 (createIndex 2 0 (Some 2)) = Inr (createIndex 0 0 (Some 6))
   \<and> isValid (createIndex 0 0 (Some 6))
   \<and> source_itemFromIndex rigComboFilter (createIndex 0 0 (Some 6)) = Some 6
   \<and> classOf (rig 6) = CCombo
   \<and> requires rigComboFilter \<noteq> []
   \<and> pair_sliders rig (pairs (rig 6)) = Inr [Some 3, Some 4, Some 5]
   \<and> filterRequiresAll rigComboFilter
   \<and> \<not> list_all (\<lambda>r. Some r \<in> set [Some 3, Some 4, Some 5]) (requires rigComboFilter)
   \<and> ComboFilterModel_filterAcceptsRow rigComboFilter rig 0 (createIndex 2 0 (Some 2))
       = Some (Inr False)
   \<and> ComboFilterModel_filterAcceptsRow (rigComboFilter\<lparr>filterRequiresAll := False\<rparr>) rig 0
         (createIndex 2 0 (Some 2))
       = Some (Inr True)"
proof -
  have f: "source_index (rigComboFilter\<lparr>filterRequiresAll := False\<rparr>) = index rigModel rig"
    "source_itemFromIndex (rigComboFilter\<lparr>filterRequiresAll := False\<rparr>) = itemFromIndex"
    "requires (rigComboFilter\<lparr>filterRequiresAll := False\<rparr>) = [3, 50]"
    by (simp_all add: rigComboFilter_def)
  have sup: "SimplexFilterModel_filterAcceptsRow (rigComboFilter\<lparr>filterRequiresAll := False\<rparr>)
      rig 0 (createIndex 2 0 (Some 2)) = Some (Inr True)"
    by (simp add: SimplexFilterModel_filterAcceptsRow_def rigComboFilter_def rig_index_combo
      filterString_def)
  show ?thesis
    using requires_mode_priority [of rigComboFilter 0 "createIndex 2 0 (Some 2)"
        "createIndex 0 0 (Some 6)" 6 rig "[Some 3, Some 4, Some 5]"]
      requires_mode_priority [of "rigComboFilter\<lparr>filterRequiresAll := False\<rparr>" 0
        "createIndex 2 0 (Some 2)" "createIndex 0 0 (Some 6)" 6 rig "[Some 3, Some 4, Some 5]"]
    by (simp add: rigComboFilter_fields f sup rig_index_combo rig_at rig_combo_sliders
        del: pair_sliders.simps)
qed

section \<open>Coercing a group index two levels down\<close>

lemma descend_Nil: "descend model cd h t [] acc = Some (Inr acc)"
  by (subst descend.simps) simp

lemma descend_leaf:
  assumes "at_or_below cd h t e"
  shows "descend model cd h t (q @ [e]) acc
         = descend model cd h t q (if item_depth cd h e = Inr t then acc @ [e] else acc)"
  using assms
  by (subst descend.simps) (auto simp: at_or_below_def split: sum.splits)

lemma descend_leaves:
  assumes "\<forall>e \<in> set ks. at_or_below cd h t e"
  shows "descend model cd h t (q @ ks) acc
         = descend model cd h t q (acc @ filter (\<lambda>e. item_depth cd h e = Inr t) (rev ks))"
  using assms
proof (induction ks arbitrary: acc rule: rev_induct)
  case Nil
  then show ?case by simp
next
  case (snoc e ks)
  have "descend model cd h t (q @ ks @ [e]) acc
        = descend model cd h t (q @ ks) (if item_depth cd h e = Inr t then acc @ [e] else acc)"
    using snoc.prems descend_leaf [of cd h t e model "q @ ks" acc] by simp
  also have "\<dots> = descend model cd h t q
       ((if item_depth cd h e = Inr t then acc @ [e] else acc)
        @ filter (\<lambda>e. item_depth cd h e = Inr t) (rev ks))"
    using snoc.prems by (intro snoc.IH) simp
  finally show ?case by simp
qed

lemma descend_inner:
  assumes "above cd h t c" and "child_indexes model h c = Inr ks"
  shows "descend model cd h t (q @ [c]) acc = descend model cd h t (q @ ks) acc"
  using assms
  by (subst descend.simps) (auto simp: above_def split: sum.splits)

lemma map_err_snoc:
  "map_err f (xs @ [x]) = Inr ys \<longleftrightarrow>
     (\<exists>ys' y. ys = ys' @ [y] \<and> map_err f xs = Inr ys' \<and> f x = Inr y)"
proof (induction xs arbitrary: ys)
  case Nil
  then show ?case by (cases "f x") auto
next
  case (Cons a xs)
  show ?case
  proof (cases "f a")
    case (Inl e)
    then show ?thesis by simp
  next
    case (Inr b)
    show ?thesis
    proof (cases "map_err f (xs @ [x])")
      case (Inl e)
      with Inr Cons.IH show ?thesis
        by (cases "map_err f xs"; cases "f x") auto
    next
      case R: (Inr zs)
      with Cons.IH [of zs] obtain ys' y where
        "zs = ys' @ [y]" "map_err f xs = Inr ys'" "f x = Inr y" by blast
      with Inr R show ?thesis by auto
    qed
  qed
qed

lemma descend_two_levels:
  assumes "map_err (child_indexes model h) cs = Inr kss"
    and "\<forall>c \<in> set cs. above cd h t c"
    and "\<forall>ks \<in> set kss. \<forall>e \<in> set ks. at_or_below cd h t e"
  shows "descend model cd h t cs acc
         = Some (Inr (acc @ concat (map (\<lambda>ks. filter (\<lambda>e. item_depth cd h e = Inr t) (rev ks))
                                     (rev kss))))"
  using assms
proof (induction cs arbitrary: kss acc rule: rev_induct)
  case Nil
  then show ?case by (simp add: descend_Nil)
next
  case (snoc c cs)
  from snoc.prems(1) obtain kss' ks where
    k: "kss = kss' @ [ks]" "map_err (child_indexes model h) cs = Inr kss'"
       "child_indexes model h c = Inr ks"
    by (auto simp: map_err_snoc)
  have "descend model cd h t (cs @ [c]) acc = descend model cd h t (cs @ ks) acc"
    using snoc.prems(2) k(3) by (intro descend_inner) simp_all
  also have "\<dots> = descend model cd h t cs
                     (acc @ filter (\<lambda>e. item_depth cd h e = Inr t) (rev ks))"
    using snoc.prems(3) k(1) by (intro descend_leaves) simp
  also have "\<dots> = Some (Inr ((acc @ filter (\<lambda>e. item_depth cd h e = Inr t) (rev ks))
        @ concat (map (\<lambda>ks. filter (\<lambda>e. item_depth cd h e = Inr t) (rev ks)) (rev kss'))))"
    using snoc.prems(2,3) k(1,2) by (intro snoc.IH) simp_all
  finally show ?case using k(1) by simp
qed

text \<open>
  C8. Take a selection of one index that lies above the target depth (a Group), whose
  children \<open>cs\<close> (the controls of the group) all lie above the target depth, and whose
  grandchildren \<open>kss\<close> (one list per child) all lie at or below it. Coercing the selection
  to the target type returns, without duplicates, exactly the indices among the
  grandchildren whose item has the target depth. For a group of two sliders with three
  and two shape targets these are five indices.
\<close>

theorem coerce_group_two_levels:
  assumes "above cd h (cd typ) idx"
    and "child_indexes model h idx = Inr cs"
    and "map_err (child_indexes model h) cs = Inr kss"
    and "\<forall>c \<in> set cs. above cd h (cd typ) c"
    and "\<forall>ks \<in> set kss. \<forall>e \<in> set ks. at_or_below cd h (cd typ) e"
  shows "\<exists>out. coerceIndexToType model cd h [idx] typ = Some (Inr out)
           \<and> distinct out
           \<and> set out = {e \<in> \<Union> (set ` set kss). item_depth cd h e = Inr (cd typ)}"
proof -
  let ?t = "cd typ"
  let ?found = "concat (map (\<lambda>ks. filter (\<lambda>e. item_depth cd h e = Inr ?t) (rev ks)) (rev kss))"
  from assms(1) obtain d where d: "item_depth cd h idx = Inr d" "d < ?t"
    by (auto simp: above_def split: sum.splits)
  have "descend model cd h ?t ([] @ [idx]) [] = descend model cd h ?t ([] @ cs) []"
    using assms(1,2) by (rule descend_inner)
  also have "\<dots> = Some (Inr ([] @ ?found))"
    using assms(3,4,5) by (simp only: append_Nil descend_two_levels)
  finally have D: "descend model cd h ?t [idx] [] = Some (Inr ?found)" by simp
  have S: "sort_by_depth cd h ?t [idx] ([], [], []) = Inr ([], [idx], [])"
    using d by simp
  have Ch: "coerceIndexToChildType model cd h [idx] typ = Some (Inr (remdups ?found))"
    using d D by (simp add: coerceIndexToChildType_def)
  have P: "coerceIndexToParentType cd h [] typ = Some (Inr [])"
    by (simp add: coerceIndexToParentType_def)
  have R: "coerceIndexToType model cd h [idx] typ = Some (Inr (remdups ?found))"
    using S Ch P by (simp add: coerceIndexToType_def)
  have "set (remdups ?found) = {e \<in> \<Union> (set ` set kss). item_depth cd h e = Inr ?t}"
    by auto
  with R show ?thesis by (intro exI [of _ "remdups ?found"]) simp
qed


lemma xrange_numerals: "xrange 2 = [0, 1]" "xrange 3 = [0, 1, 2]"
  by code_simp+

lemma rig_group_kids:
  "child_indexes rigModel rig (createIndex 0 0 (Some 1))
     = Inr [createIndex 0 0 (Some 3), createIndex 1 0 (Some 4)]"
  by (simp add: child_indexes_def rowCount_def index_def xrange_numerals nav_defs rig_at)

lemma rig_slider_kids:
  "child_indexes rigModel rig (createIndex 0 0 (Some 3))
     = Inr [createIndex 0 0 (Some 14), createIndex 1 0 (Some 15), createIndex 2 0 (Some 16)]"
  "child_indexes rigModel rig (createIndex 1 0 (Some 4))
     = Inr [createIndex 0 0 (Some 17), createIndex 1 0 (Some 18)]"
  by (simp_all add: child_indexes_def rowCount_def index_def xrange_numerals nav_defs rig_at)

lemma rig_depths:
  "item_depth rigDepth rig (createIndex r c (Some 1)) = Inr 1"
  "item_depth rigDepth rig (createIndex r c (Some (Suc 0))) = Inr 1"
  "item_depth rigDepth rig (createIndex r c (Some 3)) = Inr 2"
  "item_depth rigDepth rig (createIndex r c (Some 4)) = Inr 2"
  "item_depth rigDepth rig (createIndex r c (Some 14)) = Inr 4"
  "item_depth rigDepth rig (createIndex r c (Some 15)) = Inr 4"
  "item_depth rigDepth rig (createIndex r c (Some 16)) = Inr 4"
  "item_depth rigDepth rig (createIndex r c (Some 17)) = Inr 4"
  "item_depth rigDepth rig (createIndex r c (Some 18)) = Inr 4"
  by (simp_all add: item_depth_def rigDepth_def rig_at createIndex_def itemFromIndex_def
      internalPointer_def)

theorem coerce_group_two_levels_witness:
  "above rigDepth rig (rigDepth CProgPair) (createIndex 0 0 (Some 1))
   \<and> child_indexes rigModel rig (createIndex 0 0 (Some 1))
       = Inr [createIndex 0 0 (Some 3), createIndex 1 0 (Some 4)]
   \<and> map_err (child_indexes rigModel rig) [createIndex 0 0 (Some 3), createIndex 1 0 (Some 4)]
       = Inr [[createIndex 0 0 (Some 14), createIndex 1 0 (Some 15), createIndex 2 0 (Some 16)],
              [createIndex 0 0 (Some 17), createIndex 1 0 (Some 18)]]
   \<and> (\<exists>out. coerceIndexToType rigModel rigDepth rig [createIndex 0 0 (Some 1)] CProgPair
                = Some (Inr out)
          \<and> distinct out
          \<and> set out = {createIndex 0 0 (Some 14), createIndex 1 0 (Some 15),
                        createIndex 2 0 (Some 16), createIndex 0 0 (Some 17),
                        createIndex 1 0 (Some 18)}
          \<and> length out = 5)"
proof -
  let ?kss = "[[createIndex 0 0 (Some 14), createIndex 1 0 (Some 15), createIndex 2 0 (Some 16)],
              [createIndex 0 0 (Some 17), createIndex 1 0 (Some 18)]]"
  have t: "rigDepth CProgPair = 4" by (simp add: rigDepth_def)
  have a: "above rigDepth rig (rigDepth CProgPair) (createIndex 0 0 (Some 1))"
    by (simp add: above_def rig_depths t)
  have m: "map_err (child_indexes rigModel rig)
             [createIndex 0 0 (Some 3), createIndex 1 0 (Some 4)] = Inr ?kss"
    by (simp add: rig_slider_kids)
  have c: "\<forall>c \<in> set [createIndex 0 0 (Some 3), createIndex 1 0 (Some 4)].
             above rigDepth rig (rigDepth CProgPair) c"
    by (simp add: above_def rig_depths t)
  have l: "\<forall>ks \<in> set ?kss. \<forall>e \<in> set ks. at_or_below rigDepth rig (rigDepth CProgPair) e"
    by (simp add: at_or_below_def rig_depths t)
  from coerce_group_two_levels [OF a rig_group_kids m c l]
  obtain out where o:
    "coerceIndexToType rigModel rigDepth rig [createIndex 0 0 (Some 1)] CProgPair = Some (Inr out)"
    "distinct out"
    "set out = {e \<in> \<Union> (set ` set ?kss). item_depth rigDepth rig e = Inr (rigDepth CProgPair)}"
    by blast
  have s: "set out = {createIndex 0 0 (Some 14), createIndex 1 0 (Some 15),
                        createIndex 2 0 (Some 16), createIndex 0 0 (Some 17),
                        createIndex 1 0 (Some 18)}"
    unfolding o(3) by (auto simp: rig_depths t)
  have "card (set out) = 5"
    unfolding s by (simp add: createIndex_def)
  with o(2) have n: "length out = 5" by (simp add: distinct_card)
  from a rig_group_kids m o(1,2) s n show ?thesis by blast
qed

section \<open>Falloff check states\<close>

lemma ebind_InrE:
  assumes "ebind x f = Inr y"
  obtains v where "x = Inr v" "f v = Inr y"
  using assms by (cases x) auto

lemma classOf_Slider: "classOf x = CSlider \<Longrightarrow> is_Slider x"
  by (cases x) simp_all

lemma classOf_Progression: "classOf x = CProgression \<Longrightarrow> is_Progression x"
  by (cases x) simp_all

lemma wf_selection_Cons:
  "wf_selection h (s # ss) \<longleftrightarrow>
     classOf (h s) = CSlider
     \<and> (\<exists>p. prog (h s) = Some p \<and> classOf (h p) = CProgression)
     \<and> wf_selection h ss"
  by (auto simp: wf_selection_def split: option.splits)

lemma wf_selection_mem:
  "wf_selection h sl \<Longrightarrow> s \<in> set sl \<Longrightarrow>
     classOf (h s) = CSlider \<and> (\<exists>p. prog (h s) = Some p \<and> classOf (h p) = CProgression)"
  by (induction sl) (auto simp: wf_selection_Cons)

lemma wf_slider_falloffs:
  assumes "classOf (h s) = CSlider" "prog (h s) = Some p" "classOf (h p) = CProgression"
  shows "ebind (get_prog h (Some s)) (get_falloffs h) = Inr (slider_falloffs h s)"
  using assms
  by (simp add: get_prog_def get_falloffs_def slider_falloffs_def classOf_Slider
      classOf_Progression)

subsection \<open>The cache built by setSliders\<close>

lemma checks_get_append:
  "checks_get (checks_append fo s ck) fo' =
     (if fo' = fo then checks_get ck fo @ [s] else checks_get ck fo')"
  by (simp add: checks_get_def checks_append_def)

lemma checks_of_falloffs_get:
  "checks_get (checks_of_falloffs s fos ck) fo
     = checks_get ck fo @ replicate (count_list fos fo) s"
proof (induction fos arbitrary: ck)
  case Nil
  then show ?case by simp
next
  case (Cons a fos)
  then show ?case
    by (simp add: checks_get_append replicate_app_Cons_same)
qed

lemma count_list_distinct:
  "distinct xs \<Longrightarrow> count_list xs x = (if x \<in> set xs then 1 else 0)"
  by (induction xs) auto

lemma checks_of_sliders_get:
  assumes "wf_selection h sl" and "distinct_falloffs h sl"
  shows "\<exists>ck'. checks_of_sliders h sl ck = (ck', None)
           \<and> (\<forall>fo. checks_get ck' fo
                     = checks_get ck fo @ filter (\<lambda>s. fo \<in> set (slider_falloffs h s)) sl)"
  using assms
proof (induction sl arbitrary: ck)
  case Nil
  then show ?case by simp
next
  case (Cons s ss)
  from Cons.prems(1) obtain p where
    s: "classOf (h s) = CSlider" "prog (h s) = Some p" "classOf (h p) = CProgression"
    and ss: "wf_selection h ss"
    by (auto simp: wf_selection_Cons)
  from Cons.prems(2) have d: "distinct (slider_falloffs h s)" and ds: "distinct_falloffs h ss"
    by (simp_all add: distinct_falloffs_def)
  let ?ck1 = "checks_of_falloffs s (slider_falloffs h s) ck"
  from Cons.IH [OF ss ds, of ?ck1] obtain ck' where
    k: "checks_of_sliders h ss ?ck1 = (ck', None)"
       "\<forall>fo. checks_get ck' fo
               = checks_get ?ck1 fo @ filter (\<lambda>s. fo \<in> set (slider_falloffs h s)) ss"
    by blast
  have "checks_of_sliders h (s # ss) ck = (ck', None)"
    using k(1) wf_slider_falloffs [OF s] by simp
  moreover have "checks_get ck' fo
      = checks_get ck fo @ filter (\<lambda>s. fo \<in> set (slider_falloffs h s)) (s # ss)" for fo
    using k(2) d by (simp add: checks_of_falloffs_get count_list_distinct)
  ultimately show ?case by blast
qed

lemma length_filter_all:
  "length (filter P xs) = length xs \<longleftrightarrow> (\<forall>x \<in> set xs. P x)"
  by (metis filter_id_conv length_filter_le sum_length_filter_compl add_cancel_right_right
      filter_True length_0_conv filter_empty_conv)

lemma getCheckState_setSliders:
  assumes "wf_selection (store w) sl" and "distinct_falloffs (store w) sl" and "sl \<noteq> []"
  shows "getCheckState (fst (fst (setSliders self w sl))) fo =
     (if \<forall>s \<in> set sl. fo \<in> set (slider_falloffs (store w) s) then Qt_Checked
      else if \<forall>s \<in> set sl. fo \<notin> set (slider_falloffs (store w) s) then Qt_Unchecked
      else Qt_PartiallyChecked)"
proof -
  let ?h = "store w"
  have st: "store (emit BeginResetModel w) = ?h" by (simp add: emit_def)
  from checks_of_sliders_get [OF assms(1,2), of Map.empty] obtain ck' where
    k: "checks_of_sliders ?h sl Map.empty = (ck', None)"
       "\<forall>fo. checks_get ck' fo = filter (\<lambda>s. fo \<in> set (slider_falloffs ?h s)) sl"
    by (auto simp: checks_get_def)
  have line_upd: "sliders y = sliders x \<and> p_checks y = p_checks x"
    if "buildLine x h = Inr y" for x y h
    using that
    by (auto simp: buildLine_def split: if_splits prod.splits elim!: ebind_InrE)
  let ?self1 = "self\<lparr>sliders := sl, p_checks := ck'\<rparr>"
  let ?w2 = "emit EndResetModel (emit BeginResetModel w)"
  have F: "sliders (fst (fst (setSliders self w sl))) = sl
         \<and> p_checks (fst (fst (setSliders self w sl))) = ck'"
  proof (cases "buildLine ?self1 (store ?w2)")
    case (Inl e)
    then show ?thesis by (simp add: setSliders_def Let_def st k(1))
  next
    case (Inr self2)
    from line_upd [OF Inr] Inr show ?thesis
      by (simp add: setSliders_def Let_def st k(1))
  qed
  let ?P = "\<lambda>s. fo \<in> set (slider_falloffs ?h s)"
  have len: "length (checks_get ck' fo) = length (filter ?P sl)"
    using k(2) by simp
  have all: "length (filter ?P sl) = length sl \<longleftrightarrow> (\<forall>s \<in> set sl. ?P s)"
    by (rule length_filter_all)
  have none: "length (filter ?P sl) = 0 \<longleftrightarrow> (\<forall>s \<in> set sl. \<not> ?P s)"
    by (simp add: filter_empty_conv)
  show ?thesis
    using F len all none by (simp add: getCheckState_def Let_def)
qed

subsection \<open>Toggling to checked\<close>

lemma toggled_step:
  assumes s: "classOf (h s) = CSlider" "prog (h s) = Some p" "classOf (h p) = CProgression"
    and ss: "wf_selection h ss"
  shows "fo \<in> set (falloffs (h p)) \<Longrightarrow> toggled fo (set ss) h = toggled fo (set (s # ss)) h"
    and "fo \<notin> set (falloffs (h p)) \<Longrightarrow>
           toggled fo (set ss) (h(p := add_falloff fo (h p))) = toggled fo (set (s # ss)) h"
    and "wf_selection (h(p := add_falloff fo (h p))) ss"
proof -
  from s(3) obtain n c ps fos where hp: "h p = Progression n c ps fos"
    by (cases "h p") simp_all
  have neq: "s' \<noteq> p" if "s' \<in> set ss" for s'
    using wf_selection_mem [OF ss that] s(3) by auto
  have sp: "s \<noteq> p" using s(1,3) by auto
  show "fo \<in> set (falloffs (h p)) \<Longrightarrow> toggled fo (set ss) h = toggled fo (set (s # ss)) h"
    using s(2) by (auto simp: toggled_def fun_eq_iff)
  show "wf_selection (h(p := add_falloff fo (h p))) ss"
    using ss neq hp
    by (auto simp: wf_selection_def list_all_iff split: option.splits)
  show "toggled fo (set ss) (h(p := add_falloff fo (h p))) = toggled fo (set (s # ss)) h"
    if "fo \<notin> set (falloffs (h p))"
  proof
    fix r
    show "toggled fo (set ss) (h(p := add_falloff fo (h p))) r = toggled fo (set (s # ss)) h r"
    proof (cases "r = p")
      case True
      with that hp s(2) show ?thesis by (auto simp: toggled_def)
    next
      case False
      with neq sp s(2) show ?thesis by (auto simp: toggled_def)
    qed
  qed
qed

lemma check_sliders_toggled:
  assumes "wf_selection h sl"
  shows "\<exists>ck'. check_sliders fo sl (h, ck) = ((toggled fo (set sl) h, ck'), None)"
  using assms
proof (induction sl arbitrary: h ck)
  case Nil
  then show ?case by (simp add: toggled_def)
next
  case (Cons s ss)
  from Cons.prems obtain p where
    s: "classOf (h s) = CSlider" "prog (h s) = Some p" "classOf (h p) = CProgression"
    and ss: "wf_selection h ss"
    by (auto simp: wf_selection_Cons)
  have gp: "get_prog h (Some s) = Inr (Some p)"
    using s(1,2) by (simp add: get_prog_def classOf_Slider)
  have gf: "get_falloffs h (Some p) = Inr (falloffs (h p))"
    using s(3) by (simp add: get_falloffs_def classOf_Progression)
  show ?case
  proof (cases "fo \<in> set (falloffs (h p))")
    case True
    from Cons.IH [OF ss, of ck] obtain ck' where
      "check_sliders fo ss (h, ck) = ((toggled fo (set ss) h, ck'), None)" by blast
    with True gp gf toggled_step(1) [OF s ss True] show ?thesis by simp
  next
    case False
    let ?h1 = "h(p := add_falloff fo (h p))"
    have af: "addFalloff h (Some p) fo = Inr ?h1"
      using s(3) by (simp add: addFalloff_def call_method_def classOf_Progression)
    from Cons.IH [OF toggled_step(3) [OF s ss], of fo "checks_append fo s ck"] obtain ck' where
      "check_sliders fo ss (?h1, checks_append fo s ck)
         = ((toggled fo (set ss) ?h1, ck'), None)" by blast
    with False gp gf af toggled_step(2) [OF s ss False] show ?thesis by simp
  qed
qed

lemma setData_checked_store:
  assumes "wf_selection (store w) (sliders self)" and "internalPointer i = Some fo"
  shows "store (snd (fst (FalloffModel_setData self w i Qt_Checked Qt_CheckStateRole)))
           = toggled fo (set (sliders self)) (store w)"
proof -
  from check_sliders_toggled [OF assms(1), of fo "p_checks self"] obtain ck' where
    k: "check_sliders fo (sliders self) (store w, p_checks self)
          = ((toggled fo (set (sliders self)) (store w), ck'), None)" by blast
  have pe: "py_eq Qt_Checked Qt_Checked" by (simp add: py_eq_def)
  show ?thesis
    using assms(2) k pe
    by (cases "buildLine (self\<lparr>p_checks := ck'\<rparr>) (toggled fo (set (sliders self)) (store w))")
       (simp_all add: FalloffModel_setData_def emit_def)
qed


text \<open>
  C9. Let the selection be a non-empty list of sliders, each with a progression that
  lists no falloff twice. After \<^verbatim>\<open>setSliders\<close> the check state of a falloff is checked when
  every selected slider references it, unchecked when none does, and partial otherwise.
  Setting the check state of a falloff to checked, on a model that holds the selection,
  leaves every selected slider object as it was and gives each selected slider the
  falloff list it had if that list contained the falloff, and that list with the falloff
  appended if not; an object that is not the progression of a selected slider lacking
  the falloff is not changed.
\<close>

theorem falloff_check_state_and_toggle:
  assumes "wf_selection (store w) sl" and "distinct_falloffs (store w) sl" and "sl \<noteq> []"
  shows "getCheckState (fst (fst (setSliders self w sl))) fo =
           (if \<forall>s \<in> set sl. fo \<in> set (slider_falloffs (store w) s) then Qt_Checked
            else if \<forall>s \<in> set sl. fo \<notin> set (slider_falloffs (store w) s) then Qt_Unchecked
            else Qt_PartiallyChecked)
     \<and> (sliders fm = sl \<and> internalPointer i = Some fo \<longrightarrow>
           (\<forall>s \<in> set sl.
               store (snd (fst (FalloffModel_setData fm w i Qt_Checked Qt_CheckStateRole))) s
                 = store w s
               \<and> slider_falloffs
                    (store (snd (fst (FalloffModel_setData fm w i Qt_Checked Qt_CheckStateRole)))) s
                 = (if fo \<in> set (slider_falloffs (store w) s) then slider_falloffs (store w) s
                    else slider_falloffs (store w) s @ [fo]))
           \<and> (\<forall>r. (\<forall>s \<in> set sl. prog (store w s) = Some r
                                  \<longrightarrow> fo \<in> set (slider_falloffs (store w) s))
                  \<longrightarrow> store (snd (fst (FalloffModel_setData fm w i Qt_Checked Qt_CheckStateRole))) r
                        = store w r))"
proof (intro conjI)
  show "getCheckState (fst (fst (setSliders self w sl))) fo =
           (if \<forall>s \<in> set sl. fo \<in> set (slider_falloffs (store w) s) then Qt_Checked
            else if \<forall>s \<in> set sl. fo \<notin> set (slider_falloffs (store w) s) then Qt_Unchecked
            else Qt_PartiallyChecked)"
    using assms by (rule getCheckState_setSliders)
next
  let ?h = "store w"
  let ?h' = "store (snd (fst (FalloffModel_setData fm w i Qt_Checked Qt_CheckStateRole)))"
  show "sliders fm = sl \<and> internalPointer i = Some fo \<longrightarrow>
           (\<forall>s \<in> set sl. ?h' s = ?h s
               \<and> slider_falloffs ?h' s
                 = (if fo \<in> set (slider_falloffs ?h s) then slider_falloffs ?h s
                    else slider_falloffs ?h s @ [fo]))
           \<and> (\<forall>r. (\<forall>s \<in> set sl. prog (?h s) = Some r \<longrightarrow> fo \<in> set (slider_falloffs ?h s))
                  \<longrightarrow> ?h' r = ?h r)"
  proof (intro impI)
    assume a: "sliders fm = sl \<and> internalPointer i = Some fo"
    with assms(1) have T: "?h' = toggled fo (set sl) ?h"
      using setData_checked_store [of w fm i fo] by simp
    have sl_same: "toggled fo (set sl) ?h s = ?h s" if "s \<in> set sl" for s
    proof -
      from wf_selection_mem [OF assms(1) that] have c: "classOf (?h s) = CSlider" by simp
      have "\<not> (\<exists>s' \<in> set sl. prog (?h s') = Some s)"
      proof
        assume "\<exists>s' \<in> set sl. prog (?h s') = Some s"
        then obtain s' where "s' \<in> set sl" "prog (?h s') = Some s" by blast
        with wf_selection_mem [OF assms(1), of s'] have "classOf (?h s) = CProgression" by auto
        with c show False by simp
      qed
      then show ?thesis by (simp add: toggled_def)
    qed
    have fal: "slider_falloffs (toggled fo (set sl) ?h) s
                 = (if fo \<in> set (slider_falloffs ?h s) then slider_falloffs ?h s
                    else slider_falloffs ?h s @ [fo])" if "s \<in> set sl" for s
    proof -
      from wf_selection_mem [OF assms(1) that] obtain p where
        p: "prog (?h s) = Some p" "classOf (?h p) = CProgression" by blast
      then obtain n c ps fos where hp: "?h p = Progression n c ps fos"
        by (cases "?h p") simp_all
      have ex: "\<exists>s' \<in> set sl. prog (?h s') = Some p" using that p(1) by blast
      show ?thesis
        using sl_same [OF that] p(1) hp ex
        by (simp add: slider_falloffs_def) (simp add: toggled_def)
    qed
    have rest: "toggled fo (set sl) ?h r = ?h r"
      if "\<forall>s \<in> set sl. prog (?h s) = Some r \<longrightarrow> fo \<in> set (slider_falloffs ?h s)" for r
      using that by (auto simp: toggled_def slider_falloffs_def)
    from sl_same fal rest show
      "(\<forall>s \<in> set sl. ?h' s = ?h s
               \<and> slider_falloffs ?h' s
                 = (if fo \<in> set (slider_falloffs ?h s) then slider_falloffs ?h s
                    else slider_falloffs ?h s @ [fo]))
           \<and> (\<forall>r. (\<forall>s \<in> set sl. prog (?h s) = Some r \<longrightarrow> fo \<in> set (slider_falloffs ?h s))
                  \<longrightarrow> ?h' r = ?h r)"
      unfolding T by blast
  qed
qed

lemma rig_selection:
  "wf_selection rig [3, 4, 5]" "distinct_falloffs rig [3, 4, 5]"
  "slider_falloffs rig 3 = [30, 32]" "slider_falloffs rig 4 = [32]"
  "slider_falloffs rig 5 = [30, 32]"
  by (simp_all add: wf_selection_def distinct_falloffs_def slider_falloffs_def rig_at)

theorem falloff_check_state_and_toggle_witness:
  "wf_selection (store world0) [3, 4, 5] \<and> distinct_falloffs (store world0) [3, 4, 5]
   \<and> [3, 4, 5] \<noteq> ([] :: ref list)
   \<and> getCheckState (fst (fst (setSliders rigFalloffs world0 [3, 4, 5]))) 30 = Qt_PartiallyChecked
   \<and> getCheckState (fst (fst (setSliders rigFalloffs world0 [3, 4, 5]))) 31 = Qt_Unchecked
   \<and> getCheckState (fst (fst (setSliders rigFalloffs world0 [3, 4, 5]))) 32 = Qt_Checked
   \<and> slider_falloffs (store (snd (fst (FalloffModel_setData (rigFalloffs\<lparr>sliders := [3, 4, 5]\<rparr>)
         world0 (createIndex 1 0 (Some 30)) Qt_Checked Qt_CheckStateRole)))) 4 = [32, 30]
   \<and> slider_falloffs (store (snd (fst (FalloffModel_setData (rigFalloffs\<lparr>sliders := [3, 4, 5]\<rparr>)
         world0 (createIndex 1 0 (Some 30)) Qt_Checked Qt_CheckStateRole)))) 3 = [30, 32]
   \<and> store (snd (fst (FalloffModel_setData (rigFalloffs\<lparr>sliders := [3, 4, 5]\<rparr>)
         world0 (createIndex 1 0 (Some 30)) Qt_Checked Qt_CheckStateRole))) 10 = rig 10"
proof -
  have s: "store world0 = rig" by (simp add: world0_def)
  have p: "prog (rig 3) = Some 10" "prog (rig 4) = Some 11" "prog (rig 5) = Some 12"
    by (simp_all add: rig_at)
  have w: "wf_selection (store world0) [3, 4, 5]" "distinct_falloffs (store world0) [3, 4, 5]"
    "[3, 4, 5] \<noteq> ([] :: ref list)"
    by (simp_all add: s rig_selection)
  from falloff_check_state_and_toggle [OF w, where self = rigFalloffs and fo = 30
      and fm = "rigFalloffs\<lparr>sliders := [3, 4, 5]\<rparr>" and i = "createIndex 1 0 (Some 30)"]
    falloff_check_state_and_toggle [OF w, where self = rigFalloffs and fo = 31
      and fm = "rigFalloffs\<lparr>sliders := [3, 4, 5]\<rparr>" and i = "createIndex 1 0 (Some 30)"]
    falloff_check_state_and_toggle [OF w, where self = rigFalloffs and fo = 32
      and fm = "rigFalloffs\<lparr>sliders := [3, 4, 5]\<rparr>" and i = "createIndex 1 0 (Some 30)"]
  show ?thesis
    by (simp add: s rig_selection p)
qed

end
